theory Spec2Isabelle
  imports Main "HOL-Library.Multiset"
begin

section \<open>Values and documents\<close>

text \<open>
  The blog service is an Express application over a Mongoose document store. Its three
  controllers (\<^verbatim>\<open>postController.js\<close>, \<^verbatim>\<open>commentsController.js\<close>,
  \<^verbatim>\<open>likeController.js\<close>) and the React comment widget
  (\<^verbatim>\<open>CommentSection.jsx\<close>) are embedded here as functions over an explicit
  database, an explicit response object and an explicit JavaScript heap.

  JSON values travel between the two sides. An ObjectId is kept abstract (\<open>JId\<close>);
  on the wire it is a hexadecimal string.
\<close>

type_synonym oid = nat

datatype json =
    JNull
  | JBool bool
  | JNum int
  | JStr string
  | JId oid
  | JArr "json list"
  | JObj "(string \<times> json) list"

text \<open>
  The documents, with the fields the controllers read and write. A string field that a
  request body may leave out is a \<open>string option\<close>: \<open>None\<close> is JavaScript's
  \<^verbatim>\<open>undefined\<close>.
\<close>

record post =
  post_id :: oid
  post_title :: "string option"
  post_content :: "string option"
  post_author :: oid
  post_tags :: "oid list"
  post_categories :: "oid list"
  post_comments :: "oid list"
  post_likes :: "oid list"

record comment =
  comment_id :: oid
  comment_content :: "string option"
  comment_author :: oid
  comment_post :: oid

record like =
  like_id :: oid
  like_user :: oid
  like_post :: oid

record tag =
  tag_id :: oid
  tag_name :: string

record category =
  category_id :: oid
  category_name :: string

text \<open>A collection is the list of its documents in insertion order.\<close>

record database =
  Posts :: "post list"
  Comments :: "comment list"
  Likes :: "like list"
  Tags :: "tag list"
  Categories :: "category list"

text \<open>
  A request as the controllers read it: \<^verbatim>\<open>req.params.id\<close>, \<^verbatim>\<open>req.user.id\<close>
  and the fields of \<^verbatim>\<open>req.body\<close>. The body is parsed JSON: \<^verbatim>\<open>tags\<close> and
  \<^verbatim>\<open>categories\<close> are whatever value the client sent, or missing.
\<close>

record req =
  params_id :: oid
  user_id :: oid
  body_title :: "string option"
  body_content :: "string option"
  body_tags :: "json option"
  body_categories :: "json option"

section \<open>Handlers as state transformers with exceptions\<close>

text \<open>
  A handler runs against the state of one request: the database, the source of fresh
  ObjectIds, the response object, and the fate of the database calls still to come.
  \<open>faults\<close> lists, call by call, whether the next awaited database operation rejects
  (\<open>True\<close>); past the end of the list every call succeeds. \<open>res\<close> is \<open>None\<close> until
  a response has been sent, then the status and body the client received.
\<close>

datatype exn = DbError | TypeError | HeadersSent | CastError

record st =
  db :: database
  fresh :: oid
  faults :: "bool list"
  res :: "(nat \<times> json) option"

type_synonym 'a io = "st \<Rightarrow> (exn + 'a) \<times> st"

definition return :: "'a \<Rightarrow> 'a io" where
  "return x s = (Inr x, s)"

definition throw :: "exn \<Rightarrow> 'a io" where
  "throw e s = (Inl e, s)"

definition andThen :: "'a io \<Rightarrow> ('a \<Rightarrow> 'b io) \<Rightarrow> 'b io" where
  "andThen m f s = (case m s of (Inl e, s') \<Rightarrow> (Inl e, s') | (Inr x, s') \<Rightarrow> f x s')"

definition try_catch :: "unit io \<Rightarrow> (exn \<Rightarrow> unit io) \<Rightarrow> unit io" where
  "try_catch m h s = (case m s of (Inl e, s') \<Rightarrow> h e s' | (Inr x, s') \<Rightarrow> (Inr x, s'))"

definition exn_message :: "exn \<Rightarrow> string" where
  "exn_message e =
     (case e of
        DbError \<Rightarrow> ''database operation failed''
      | TypeError \<Rightarrow> ''Cannot read properties of null''
      | HeadersSent \<Rightarrow> ''Cannot set headers after they are sent to the client''
      | CastError \<Rightarrow> ''Cast to string failed'')"

text \<open>
  \<^verbatim>\<open>res.status(code).json(body)\<close>. Express sends the first response; a later call
  on the same response object throws (\<^verbatim>\<open>ERR_HTTP_HEADERS_SENT\<close>) and the client
  keeps what it was sent first.
\<close>

definition respond :: "nat \<Rightarrow> json \<Rightarrow> unit io" where
  "respond code body s =
     (case res s of
        None \<Rightarrow> (Inr (), s\<lparr>res := Some (code, body)\<rparr>)
      | Some r \<Rightarrow> (Inl HeadersSent, s))"

text \<open>The hexadecimal string of an ObjectId, as a template literal prints it.\<close>

definition hexdigit :: "nat \<Rightarrow> char" where
  "hexdigit k = ''0123456789abcdef'' ! (k mod 16)"

fun oid_string :: "oid \<Rightarrow> string" where
  "oid_string n =
     (if n < 16 then [hexdigit n] else oid_string (n div 16) @ [hexdigit (n mod 16)])"

definition msg :: "string \<Rightarrow> json" where
  "msg m = JObj [(''message'', JStr m)]"

definition msg_error :: "string \<Rightarrow> exn \<Rightarrow> json" where
  "msg_error m e = JObj [(''message'', JStr m), (''error'', JStr (exn_message e))]"

text \<open>
  An awaited database operation: it rejects when the fault list says so, and otherwise
  runs on the database.
\<close>

definition db_call :: "(database \<Rightarrow> 'a \<times> database) \<Rightarrow> 'a io" where
  "db_call f s =
     (case faults s of
        [] \<Rightarrow> (case f (db s) of (x, d) \<Rightarrow> (Inr x, s\<lparr>db := d\<rparr>))
      | b # fl \<Rightarrow>
          if b then (Inl DbError, s\<lparr>faults := fl\<rparr>)
          else (case f (db s) of (x, d) \<Rightarrow> (Inr x, s\<lparr>db := d, faults := fl\<rparr>)))"

text \<open>A handler serves a request from a fresh response object.\<close>

definition serve :: "unit io \<Rightarrow> bool list \<Rightarrow> oid \<Rightarrow> database \<Rightarrow> (exn + unit) \<times> st" where
  "serve h fl n d = h \<lparr>db = d, fresh = n, faults = fl, res = None\<rparr>"

section \<open>The Mongoose operations the controllers call\<close>

text \<open>
  \<^verbatim>\<open>findById\<close> and \<^verbatim>\<open>findOne\<close> give the first matching document or null;
  \<^verbatim>\<open>save\<close> on a document made with \<^verbatim>\<open>new\<close> inserts it, on a document that was
  read it rewrites the stored document of the same \<^verbatim>\<open>_id\<close>; \<^verbatim>\<open>deleteOne\<close> on
  a document removes the document of that \<^verbatim>\<open>_id\<close>; \<^verbatim>\<open>deleteMany\<close> removes every
  match.
\<close>

definition Post_findById :: "oid \<Rightarrow> post option io" where
  "Post_findById i = db_call (\<lambda>d. (find (\<lambda>p. post_id p = i) (Posts d), d))"

definition Like_findOne :: "oid \<Rightarrow> oid \<Rightarrow> like option io" where
  "Like_findOne u p =
     db_call (\<lambda>d. (find (\<lambda>l. like_user l = u \<and> like_post l = p) (Likes d), d))"

definition new_Like :: "oid \<Rightarrow> oid \<Rightarrow> like io" where
  "new_Like u p s =
     (Inr \<lparr>like_id = fresh s, like_user = u, like_post = p\<rparr>, s\<lparr>fresh := Suc (fresh s)\<rparr>)"

definition post_save :: "post \<Rightarrow> unit io" where
  "post_save p =
     db_call (\<lambda>d. ((), d\<lparr>Posts := map (\<lambda>q. if post_id q = post_id p then p else q) (Posts d)\<rparr>))"

definition like_save :: "like \<Rightarrow> unit io" where
  "like_save l = db_call (\<lambda>d. ((), d\<lparr>Likes := Likes d @ [l]\<rparr>))"

definition like_deleteOne :: "like \<Rightarrow> unit io" where
  "like_deleteOne l =
     db_call (\<lambda>d. ((), d\<lparr>Likes := filter (\<lambda>k. like_id k \<noteq> like_id l) (Likes d)\<rparr>))"

section \<open>likeController.js\<close>

definition addLike :: "req \<Rightarrow> unit io" where
  "addLike rq =
     (let postId = params_id rq; userId = user_id rq in
      try_catch
        (andThen (Post_findById postId) (\<lambda>post.
           case post of
             None \<Rightarrow> respond 404 (msg ''Post not found.'')
           | Some post \<Rightarrow>
               andThen (Like_findOne userId postId) (\<lambda>existingLike.
               andThen (if existingLike \<noteq> None
                        then respond 400 (msg ''You have already liked this post.'')
                        else return ()) (\<lambda>_.
               andThen (new_Like userId postId) (\<lambda>like.
               andThen (post_save (post\<lparr>post_likes := post_likes post @ [like_id like]\<rparr>)) (\<lambda>_.
               andThen (like_save like) (\<lambda>_.
               respond 201 (msg ''Post Liked Successfully''))))))))
        (\<lambda>err. respond 500 (msg_error ''Failed to add like to post.'' err)))"

definition removeLike :: "req \<Rightarrow> unit io" where
  "removeLike rq =
     (let postId = params_id rq; userId = user_id rq in
      try_catch
        (andThen (Like_findOne userId postId) (\<lambda>like.
           case like of
             None \<Rightarrow> respond 404 (msg ''Like Not Found'')
           | Some like \<Rightarrow>
               if like_user like \<noteq> userId
               then respond 403 (msg ''You are not authorized to remove this like.'')
               else
                 andThen (like_deleteOne like) (\<lambda>_.
                 andThen (Post_findById postId) (\<lambda>post.
                   case post of
                     None \<Rightarrow> throw TypeError
                   | Some post \<Rightarrow>
                       andThen (post_save (post\<lparr>post_likes :=
                                  filter (\<lambda>likeId. likeId \<noteq> like_id like) (post_likes post)\<rparr>)) (\<lambda>_.
                       respond 200 (msg ''Like removed successfully.''))))))
        (\<lambda>err. respond 500 (msg_error ''Failed to remove like from post'' err)))"

section \<open>commentsController.js\<close>

definition opt_field :: "string \<Rightarrow> string option \<Rightarrow> (string \<times> json) list" where
  "opt_field k v = (case v of None \<Rightarrow> [] | Some x \<Rightarrow> [(k, JStr x)])"

definition comment_toJSON :: "comment \<Rightarrow> json" where
  "comment_toJSON c =
     JObj ([(''_id'', JId (comment_id c))] @ opt_field ''content'' (comment_content c) @
           [(''author'', JId (comment_author c)), (''post'', JId (comment_post c))])"

text \<open>
  \<^verbatim>\<open>Comment.find({ post: postId }).populate(...)\<close>: the comments of the post in
  collection order, each rendered by \<open>populate\<close>. The populated paths are documents of
  collections the controller does not touch, so \<open>populate\<close> is a parameter.
\<close>

definition Comment_find :: "(comment \<Rightarrow> json) \<Rightarrow> oid \<Rightarrow> json list io" where
  "Comment_find populate p =
     db_call (\<lambda>d. (map populate (filter (\<lambda>c. comment_post c = p) (Comments d)), d))"

definition Comment_findById :: "oid \<Rightarrow> comment option io" where
  "Comment_findById i = db_call (\<lambda>d. (find (\<lambda>c. comment_id c = i) (Comments d), d))"

definition new_Comment :: "string option \<Rightarrow> oid \<Rightarrow> oid \<Rightarrow> comment io" where
  "new_Comment content author p s =
     (Inr \<lparr>comment_id = fresh s, comment_content = content, comment_author = author,
           comment_post = p\<rparr>,
      s\<lparr>fresh := Suc (fresh s)\<rparr>)"

text \<open>\<open>isNew\<close> is Mongoose's flag: a new document is inserted, a read one rewritten.\<close>

definition comment_save :: "bool \<Rightarrow> comment \<Rightarrow> unit io" where
  "comment_save isNew c =
     db_call (\<lambda>d. ((),
       if isNew then d\<lparr>Comments := Comments d @ [c]\<rparr>
       else d\<lparr>Comments := map (\<lambda>q. if comment_id q = comment_id c then c else q) (Comments d)\<rparr>))"

definition comment_deleteOne :: "comment \<Rightarrow> unit io" where
  "comment_deleteOne c =
     db_call (\<lambda>d. ((), d\<lparr>Comments := filter (\<lambda>q. comment_id q \<noteq> comment_id c) (Comments d)\<rparr>))"

text \<open>\<^verbatim>\<open>Post.updateOne({ _id: p }, { $pull: { comments: c } })\<close>.\<close>

definition Post_updateOne_pull :: "oid \<Rightarrow> oid \<Rightarrow> unit io" where
  "Post_updateOne_pull p c =
     db_call (\<lambda>d. ((),
       d\<lparr>Posts := map (\<lambda>q. if post_id q = p
                             then q\<lparr>post_comments := filter (\<lambda>i. i \<noteq> c) (post_comments q)\<rparr>
                             else q) (Posts d)\<rparr>))"

text \<open>JavaScript truthiness of a string that may be missing, and \<^verbatim>\<open>a || b\<close> on it.\<close>

definition truthy :: "string option \<Rightarrow> bool" where
  "truthy v = (case v of None \<Rightarrow> False | Some x \<Rightarrow> x \<noteq> [])"

definition js_or :: "string option \<Rightarrow> string option \<Rightarrow> string option" where
  "js_or a b = (if truthy a then a else b)"

definition getAllComments :: "(comment \<Rightarrow> json) \<Rightarrow> req \<Rightarrow> unit io" where
  "getAllComments populate rq =
     (let postId = params_id rq in
      try_catch
        (andThen (Comment_find populate postId) (\<lambda>allComments.
         respond 200 (JObj [(''allComments'', JArr allComments)])))
        (\<lambda>error. respond 500 (msg_error ''Failed to fetch comments'' error)))"

definition createComment :: "req \<Rightarrow> unit io" where
  "createComment rq =
     (let content = body_content rq in
      try_catch
        (andThen (Post_findById (params_id rq)) (\<lambda>chosenPost.
           case chosenPost of
             None \<Rightarrow> respond 404 (msg ''Post not found'')
           | Some chosenPost \<Rightarrow>
               andThen (new_Comment content (user_id rq) (params_id rq)) (\<lambda>comment.
               andThen (comment_save True comment) (\<lambda>_.
               andThen (post_save (chosenPost\<lparr>post_comments :=
                          post_comments chosenPost @ [comment_id comment]\<rparr>)) (\<lambda>_.
               respond 201 (JObj [(''message'', JStr ''Comment created successfully''),
                                  (''comment'', comment_toJSON comment)]))))))
        (\<lambda>error. respond 500 (msg_error ''Failed to fetch comment'' error)))"

definition editCommentById :: "req \<Rightarrow> unit io" where
  "editCommentById rq =
     try_catch
       (andThen (Comment_findById (params_id rq)) (\<lambda>comment.
          case comment of
            None \<Rightarrow> respond 404 (msg ''Comment not found'')
          | Some comment \<Rightarrow>
              if user_id rq \<noteq> comment_author comment
              then respond 403 (msg ''You are not the Author. You may not edit this comment'')
              else
                (let comment = comment\<lparr>comment_content :=
                                 js_or (body_content rq) (comment_content comment)\<rparr> in
                 andThen (comment_save False comment) (\<lambda>_.
                 respond 200 (JObj [(''message'', JStr ''Comment updated successfully''),
                                    (''comment'', comment_toJSON comment)])))))
       (\<lambda>error. respond 500 (msg_error ''Failed to fetch comment'' error))"

definition deleteCommentById :: "req \<Rightarrow> unit io" where
  "deleteCommentById rq =
     try_catch
       (andThen (Comment_findById (params_id rq)) (\<lambda>comment.
          case comment of
            None \<Rightarrow> respond 404 (msg ''Comment not found'')
          | Some comment \<Rightarrow>
              if user_id rq \<noteq> comment_author comment
              then respond 403 (msg ''You are not the Author. You may not edit this comment'')
              else
                andThen (Post_updateOne_pull (comment_post comment) (comment_id comment)) (\<lambda>_.
                andThen (comment_deleteOne comment) (\<lambda>_.
                respond 200 (JObj [(''message'', JStr ''Comment deleted successfully''),
                                   (''comment'', comment_toJSON comment)])))))
       (\<lambda>error. respond 500 (msg_error ''Failed to fetch comment'' error))"

section \<open>postController.js\<close>

definition Tag_findOne :: "string \<Rightarrow> tag option io" where
  "Tag_findOne name = db_call (\<lambda>d. (find (\<lambda>t. tag_name t = name) (Tags d), d))"

definition new_Tag :: "string \<Rightarrow> tag io" where
  "new_Tag name s = (Inr \<lparr>tag_id = fresh s, tag_name = name\<rparr>, s\<lparr>fresh := Suc (fresh s)\<rparr>)"

definition tag_save :: "tag \<Rightarrow> unit io" where
  "tag_save t = db_call (\<lambda>d. ((), d\<lparr>Tags := Tags d @ [t]\<rparr>))"

definition Category_findOne :: "string \<Rightarrow> category option io" where
  "Category_findOne name =
     db_call (\<lambda>d. (find (\<lambda>c. category_name c = name) (Categories d), d))"

definition new_Category :: "string \<Rightarrow> category io" where
  "new_Category name s =
     (Inr \<lparr>category_id = fresh s, category_name = name\<rparr>, s\<lparr>fresh := Suc (fresh s)\<rparr>)"

definition category_save :: "category \<Rightarrow> unit io" where
  "category_save c = db_call (\<lambda>d. ((), d\<lparr>Categories := Categories d @ [c]\<rparr>))"

text \<open>
  JavaScript truthiness of a JSON value, and what \<^verbatim>\<open>for (const x of v)\<close> runs over:
  the elements of an array, the code points of a string, and a \<^verbatim>\<open>TypeError\<close>
  (\<open>None\<close>) for a number, a boolean, an object or null. A string is a list of UTF-8
  bytes here, so a code point is a byte with the continuation bytes that follow it.
\<close>

definition js_truthy :: "json \<Rightarrow> bool" where
  "js_truthy v =
     (case v of
        JNull \<Rightarrow> False
      | JBool b \<Rightarrow> b
      | JNum k \<Rightarrow> k \<noteq> 0
      | JStr x \<Rightarrow> x \<noteq> []
      | JId i \<Rightarrow> True
      | JArr xs \<Rightarrow> True
      | JObj kvs \<Rightarrow> True)"

definition is_continuation :: "char \<Rightarrow> bool" where
  "is_continuation c = (128 \<le> (of_char c :: nat) \<and> (of_char c :: nat) < 192)"

fun code_points :: "string \<Rightarrow> string list" where
  "code_points [] = []"
| "code_points (c # cs) =
     (case code_points cs of
        [] \<Rightarrow> [[c]]
      | g # gs \<Rightarrow>
          if (case g of [] \<Rightarrow> False | b # bs \<Rightarrow> is_continuation b)
          then (c # g) # gs
          else [c] # g # gs)"

definition iterate :: "json \<Rightarrow> json list option" where
  "iterate v =
     (case v of
        JArr xs \<Rightarrow> Some xs
      | JStr x \<Rightarrow> Some (map JStr (code_points x))
      | JId i \<Rightarrow> Some (map JStr (code_points (oid_string i)))
      | _ \<Rightarrow> None)"

text \<open>
  The name a tag or a category is looked up and created under. A string is its own
  name; for any other value Mongoose casts to the string type of the path \<^verbatim>\<open>name\<close>,
  which is \<open>castString\<close>, a parameter: \<open>None\<close> when the cast fails and the query
  rejects with a \<^verbatim>\<open>CastError\<close>.
\<close>

definition name_of :: "(json \<Rightarrow> string option) \<Rightarrow> json \<Rightarrow> string option" where
  "name_of castString v =
     (case v of JStr x \<Rightarrow> Some x | JId i \<Rightarrow> Some (oid_string i) | _ \<Rightarrow> castString v)"

text \<open>
  The two find-or-create loops; the second argument is the array \<^verbatim>\<open>tagIds\<close>
  (\<^verbatim>\<open>categoryIds\<close>) built so far, the third what is left to iterate.
\<close>

fun createOrGetTags_loop ::
  "(json \<Rightarrow> string option) \<Rightarrow> oid list \<Rightarrow> json list \<Rightarrow> oid list io" where
  "createOrGetTags_loop castString tagIds [] = return tagIds"
| "createOrGetTags_loop castString tagIds (tagName # tags) =
     (case name_of castString tagName of
        None \<Rightarrow> throw CastError
      | Some name \<Rightarrow>
          andThen (Tag_findOne name) (\<lambda>found.
          andThen (case found of
                     None \<Rightarrow> andThen (new_Tag name) (\<lambda>t. andThen (tag_save t) (\<lambda>_. return t))
                   | Some t \<Rightarrow> return t) (\<lambda>t.
          createOrGetTags_loop castString (tagIds @ [tag_id t]) tags)))"

definition createOrGetTags :: "(json \<Rightarrow> string option) \<Rightarrow> json \<Rightarrow> oid list io" where
  "createOrGetTags castString tags =
     (case iterate tags of
        None \<Rightarrow> throw TypeError
      | Some xs \<Rightarrow> createOrGetTags_loop castString [] xs)"

fun createOrGetCategories_loop ::
  "(json \<Rightarrow> string option) \<Rightarrow> oid list \<Rightarrow> json list \<Rightarrow> oid list io" where
  "createOrGetCategories_loop castString categoryIds [] = return categoryIds"
| "createOrGetCategories_loop castString categoryIds (categoryName # categories) =
     (case name_of castString categoryName of
        None \<Rightarrow> throw CastError
      | Some name \<Rightarrow>
          andThen (Category_findOne name) (\<lambda>found.
          andThen (case found of
                     None \<Rightarrow> andThen (new_Category name) (\<lambda>c.
                               andThen (category_save c) (\<lambda>_. return c))
                   | Some c \<Rightarrow> return c) (\<lambda>c.
          createOrGetCategories_loop castString (categoryIds @ [category_id c]) categories)))"

definition createOrGetCategories :: "(json \<Rightarrow> string option) \<Rightarrow> json \<Rightarrow> oid list io" where
  "createOrGetCategories castString categories =
     (case iterate categories of
        None \<Rightarrow> throw TypeError
      | Some xs \<Rightarrow> createOrGetCategories_loop castString [] xs)"

text \<open>The object \<^verbatim>\<open>editedPost\<close> of \<^verbatim>\<open>updatePost\<close>.\<close>

record edited =
  ed_title :: "string option"
  ed_content :: "string option"
  ed_tags :: "oid list"
  ed_categories :: "oid list"

definition apply_edit :: "edited \<Rightarrow> post \<Rightarrow> post" where
  "apply_edit e q =
     q\<lparr>post_title := ed_title e, post_content := ed_content e, post_tags := ed_tags e,
       post_categories := ed_categories e\<rparr>"

text \<open>\<^verbatim>\<open>Post.findByIdAndUpdate(id, editedPost, { new: true })\<close>: the updated post, or null.\<close>

definition Post_findByIdAndUpdate :: "oid \<Rightarrow> edited \<Rightarrow> post option io" where
  "Post_findByIdAndUpdate i e =
     db_call (\<lambda>d.
       (map_option (apply_edit e) (find (\<lambda>p. post_id p = i) (Posts d)),
        d\<lparr>Posts := map (\<lambda>q. if post_id q = i then apply_edit e q else q) (Posts d)\<rparr>))"

definition post_toJSON :: "post \<Rightarrow> json" where
  "post_toJSON p =
     JObj ([(''_id'', JId (post_id p))] @ opt_field ''title'' (post_title p) @
           opt_field ''content'' (post_content p) @
           [(''author'', JId (post_author p)),
            (''tags'', JArr (map JId (post_tags p))),
            (''categories'', JArr (map JId (post_categories p))),
            (''comments'', JArr (map JId (post_comments p))),
            (''likes'', JArr (map JId (post_likes p)))])"

definition updatePost :: "(json \<Rightarrow> string option) \<Rightarrow> req \<Rightarrow> unit io" where
  "updatePost castString rq =
     (let title = body_title rq; content = body_content rq; tags = body_tags rq;
          categories = body_categories rq; id = params_id rq in
      andThen (Post_findById id) (\<lambda>chosenPost.
        case chosenPost of
          None \<Rightarrow> respond 404 (msg ''Post not found'')
        | Some chosenPost \<Rightarrow>
            if user_id rq \<noteq> post_author chosenPost
            then respond 403 (msg ''You are not the author of this post.'')
            else
              try_catch
                (let editedPost =
                       \<lparr>ed_title = (if truthy title then title else post_title chosenPost),
                        ed_content = (if truthy content then content else post_content chosenPost),
                        ed_tags = post_tags chosenPost,
                        ed_categories = post_categories chosenPost\<rparr> in
                 andThen (case tags of
                            None \<Rightarrow> return editedPost
                          | Some ts \<Rightarrow>
                              if js_truthy ts
                              then andThen (createOrGetTags castString ts) (\<lambda>tagIds.
                                     return (editedPost\<lparr>ed_tags := tagIds\<rparr>))
                              else return editedPost) (\<lambda>editedPost.
                 andThen (case categories of
                            None \<Rightarrow> return editedPost
                          | Some cs \<Rightarrow>
                              if js_truthy cs
                              then andThen (createOrGetCategories castString cs) (\<lambda>categoryIds.
                                     return (editedPost\<lparr>ed_categories := categoryIds\<rparr>))
                              else return editedPost) (\<lambda>editedPost.
                 andThen (Post_findByIdAndUpdate id editedPost) (\<lambda>updatedPost.
                   case updatedPost of
                     None \<Rightarrow> throw TypeError
                   | Some updatedPost \<Rightarrow>
                       respond 200 (JObj [(''message'', JStr ''Post updated successfully''),
                                          (''updatedPost'', post_toJSON updatedPost)])))))
                (\<lambda>error. respond 500 (msg_error ''Failed to create post'' error))))"

definition Like_deleteMany :: "oid \<Rightarrow> unit io" where
  "Like_deleteMany p = db_call (\<lambda>d. ((), d\<lparr>Likes := filter (\<lambda>l. like_post l \<noteq> p) (Likes d)\<rparr>))"

definition Comment_deleteMany :: "oid \<Rightarrow> unit io" where
  "Comment_deleteMany p =
     db_call (\<lambda>d. ((), d\<lparr>Comments := filter (\<lambda>c. comment_post c \<noteq> p) (Comments d)\<rparr>))"

definition post_deleteOne :: "post \<Rightarrow> unit io" where
  "post_deleteOne p =
     db_call (\<lambda>d. ((), d\<lparr>Posts := filter (\<lambda>q. post_id q \<noteq> post_id p) (Posts d)\<rparr>))"

text \<open>
  Modelled from the spec: \<^verbatim>\<open>cleanUpTags\<close> and \<^verbatim>\<open>cleanUpCategories\<close> live in
  \<^verbatim>\<open>utils/cleanup\<close>, which is not among the sources. The specification describes them
  as ``pruning tags/categories no longer referenced by any post'': each is one database
  operation that keeps exactly the tags (categories) some post still lists.
\<close>

definition cleanUpTags :: "unit io" where
  "cleanUpTags =
     db_call (\<lambda>d. ((),
       d\<lparr>Tags := filter (\<lambda>t. tag_id t \<in> set (concat (map post_tags (Posts d)))) (Tags d)\<rparr>))"

definition cleanUpCategories :: "unit io" where
  "cleanUpCategories =
     db_call (\<lambda>d. ((),
       d\<lparr>Categories := filter (\<lambda>c. category_id c \<in> set (concat (map post_categories (Posts d))))
                          (Categories d)\<rparr>))"

definition deletePost :: "req \<Rightarrow> unit io" where
  "deletePost rq =
     (let id = params_id rq in
      andThen (Post_findById id) (\<lambda>post.
        case post of
          None \<Rightarrow> respond 404 (msg ''Post not found'')
        | Some post \<Rightarrow>
            if user_id rq \<noteq> post_author post
            then respond 403 (msg ''You are not the author of this post.'')
            else
              try_catch
                (andThen (Like_deleteMany (post_id post)) (\<lambda>_.
                 andThen (Comment_deleteMany (post_id post)) (\<lambda>_.
                 andThen (post_deleteOne post) (\<lambda>_.
                 andThen cleanUpTags (\<lambda>_.
                 andThen cleanUpCategories (\<lambda>_.
                 respond 200 (msg (''Post with id:'' @ oid_string id @ '' deleted successfully''))))))))
                (\<lambda>error. respond 500 (msg_error ''Failed to delete post'' error))))"

section \<open>CommentSection.jsx\<close>

text \<open>
  The widget's React state, and the JavaScript arrays it refers to. An array lives in the
  heap \<open>arrays\<close> at an address; \<open>comments\<close> is the address of the array the state
  variable holds. Addresses below \<open>next_addr\<close> are in use. \<open>alerts\<close> records the
  calls of \<^verbatim>\<open>alert\<close>. The text of the input field is a JavaScript string, a list of
  UTF-16 code units.
\<close>

record widget =
  arrays :: "nat \<Rightarrow> json list"
  next_addr :: nat
  comments :: nat
  newComment :: "nat list"
  sortOption :: string
  loading :: bool
  alerts :: "string list"

definition alloc :: "json list \<Rightarrow> widget \<Rightarrow> nat \<times> widget" where
  "alloc xs w =
     (next_addr w, w\<lparr>arrays := (arrays w)(next_addr w := xs), next_addr := Suc (next_addr w)\<rparr>)"

definition alert :: "string \<Rightarrow> widget \<Rightarrow> widget" where
  "alert m w = w\<lparr>alerts := alerts w @ [m]\<rparr>"

text \<open>
  Reading a property of a parsed JSON value: an object gives the value or
  \<^verbatim>\<open>undefined\<close> (\<open>None\<close>), the last one when the text repeated the key; a
  string, number, boolean or array has none of the properties read here. Reading a
  property of \<^verbatim>\<open>null\<close> throws, which the callers check before reading.
\<close>

definition get_prop :: "string \<Rightarrow> json \<Rightarrow> json option" where
  "get_prop k v = (case v of JObj kvs \<Rightarrow> map_of (rev kvs) k | _ \<Rightarrow> None)"

text \<open>
  \<^verbatim>\<open>fetchComments\<close>. \<open>token\<close> is the token of \<^verbatim>\<open>getAuthUser()\<close>; \<open>reply\<close> is what
  \<^verbatim>\<open>fetch\<close> resolves to, the status and the parsed body, or \<open>None\<close> when it rejects.
\<close>

definition fetchComments :: "string option \<Rightarrow> (nat \<times> json) option \<Rightarrow> widget \<Rightarrow> widget" where
  "fetchComments token reply w0 =
     (let w = w0\<lparr>loading := True\<rparr>;
          w' =
            (if \<not> truthy token then alert ''Authentication token not found. Please log in.'' w
             else
               case reply of
                 None \<Rightarrow> alert ''Failed to fetch'' w
               | Some (status, data) \<Rightarrow>
                   if \<not> (200 \<le> status \<and> status \<le> 299)
                   then alert ''Failed to get comments. Please try again.'' w
                   else
                     (case data of
                        JArr xs \<Rightarrow> (case alloc xs w of (a, w1) \<Rightarrow> w1\<lparr>comments := a\<rparr>)
                      | JNull \<Rightarrow> alert (exn_message TypeError) w
                      | _ \<Rightarrow>
                          (case get_prop ''comments'' data of
                             Some (JArr xs) \<Rightarrow> (case alloc xs w of (a, w1) \<Rightarrow> w1\<lparr>comments := a\<rparr>)
                           | _ \<Rightarrow> (case alloc [] w of (a, w1) \<Rightarrow> w1\<lparr>comments := a\<rparr>))))
      in w'\<lparr>loading := False\<rparr>)"

text \<open>The widget asks the backend: the reply is the response \<^verbatim>\<open>getAllComments\<close> sent.\<close>

definition fetch_from_backend ::
  "(comment \<Rightarrow> json) \<Rightarrow> req \<Rightarrow> bool list \<Rightarrow> oid \<Rightarrow> database \<Rightarrow> string option \<Rightarrow> widget \<Rightarrow> widget" where
  "fetch_from_backend populate rq fl n d token w =
     fetchComments token (res (snd (serve (getAllComments populate rq) fl n d))) w"

text \<open>
  \<^verbatim>\<open>!newComment.trim()\<close>: \<^verbatim>\<open>trim\<close> strips the white space and line terminators
  of the language (tab to carriage return, space, U+00A0, U+1680, U+2000 to U+200A,
  U+2028, U+2029, U+202F, U+205F, U+3000, U+FEFF), so the text is blank when it has no
  other code unit.
\<close>

definition js_whitespace :: "nat \<Rightarrow> bool" where
  "js_whitespace u =
     (u \<in> set [9, 10, 11, 12, 13, 32, 160, 5760, 8232, 8233, 8239, 8287, 12288, 65279] \<or>
      (8192 \<le> u \<and> u \<le> 8202))"

definition blank :: "nat list \<Rightarrow> bool" where
  "blank s = list_all js_whitespace s"

text \<open>
  \<^verbatim>\<open>handleAddComment\<close>: the parsed body of the reply goes to the front of a new array.
\<close>

definition handleAddComment :: "string option \<Rightarrow> (nat \<times> json) option \<Rightarrow> widget \<Rightarrow> widget" where
  "handleAddComment token reply w0 =
     (let w = w0\<lparr>loading := True\<rparr>;
          w' =
            (if \<not> truthy token then alert ''Authentication token not found. Please log in.'' w
             else if blank (newComment w) then alert ''Comment cannot be empty.'' w
             else
               case reply of
                 None \<Rightarrow> alert ''Failed to fetch'' w
               | Some (status, createdComment) \<Rightarrow>
                   if \<not> (200 \<le> status \<and> status \<le> 299)
                   then alert ''Failed to add comment. Please try again.'' w
                   else
                     (case alloc (createdComment # arrays w (comments w)) w of
                        (a, w1) \<Rightarrow> w1\<lparr>comments := a\<rparr>))
      in w'\<lparr>newComment := [], loading := False\<rparr>)"

text \<open>
  \<^verbatim>\<open>Array.prototype.sort\<close> with a comparator. The comparator gives a number or NaN
  (\<open>None\<close>); the sort reads NaN as \<open>+0\<close>. When the comparator is consistent on the
  elements (it orders them as a total preorder) the language fixes the result: the
  elements in order, equal ones as they stood. \<open>stable_sort\<close> computes that result by
  insertion. For any other comparator the order is left to the engine, so the engine's
  sort is a parameter \<open>srt\<close> of which only \<open>conforming\<close> is known.
\<close>

definition sort_compare :: "('a \<Rightarrow> 'a \<Rightarrow> int option) \<Rightarrow> 'a \<Rightarrow> 'a \<Rightarrow> int" where
  "sort_compare comparefn x y = (case comparefn x y of None \<Rightarrow> 0 | Some v \<Rightarrow> v)"

fun insert_sorted :: "('a \<Rightarrow> 'a \<Rightarrow> int option) \<Rightarrow> 'a \<Rightarrow> 'a list \<Rightarrow> 'a list" where
  "insert_sorted comparefn x [] = [x]"
| "insert_sorted comparefn x (y # ys) =
     (if sort_compare comparefn x y \<le> 0 then x # y # ys
      else y # insert_sorted comparefn x ys)"

definition stable_sort :: "('a \<Rightarrow> 'a \<Rightarrow> int option) \<Rightarrow> 'a list \<Rightarrow> 'a list" where
  "stable_sort comparefn xs = foldr (insert_sorted comparefn) xs []"

definition consistent :: "('a \<Rightarrow> 'a \<Rightarrow> int option) \<Rightarrow> 'a list \<Rightarrow> bool" where
  "consistent comparefn xs =
     ((\<forall>a\<in>set xs. sort_compare comparefn a a = 0) \<and>
      (\<forall>a\<in>set xs. \<forall>b\<in>set xs.
         (sort_compare comparefn a b < 0) = (0 < sort_compare comparefn b a)) \<and>
      (\<forall>a\<in>set xs. \<forall>b\<in>set xs. \<forall>c\<in>set xs.
         sort_compare comparefn a b \<le> 0 \<and> sort_compare comparefn b c \<le> 0 \<longrightarrow>
         sort_compare comparefn a c \<le> 0))"

definition conforming ::
  "((json \<Rightarrow> json \<Rightarrow> int option) \<Rightarrow> json list \<Rightarrow> json list) \<Rightarrow> bool" where
  "conforming srt =
     (\<forall>comparefn xs. consistent comparefn xs \<longrightarrow> srt comparefn xs = stable_sort comparefn xs)"

text \<open>Subtraction of two dates: NaN when either is an invalid date.\<close>

definition date_minus :: "int option \<Rightarrow> int option \<Rightarrow> int option" where
  "date_minus a b = (case (a, b) of (Some x, Some y) \<Rightarrow> Some (x - y) | _ \<Rightarrow> None)"

text \<open>
  The comparator of \<^verbatim>\<open>renderComments\<close>. \<open>Date\<close> stands for \<^verbatim>\<open>new Date(v)\<close> read as
  a number: the milliseconds of a valid date, or NaN (\<open>None\<close>) for an invalid one. Its
  argument is the value of the property \<^verbatim>\<open>createdAt\<close>, \<open>None\<close> when the comment has
  none.
\<close>

definition createdAt :: "(json option \<Rightarrow> int option) \<Rightarrow> json \<Rightarrow> int option" where
  "createdAt Date c = Date (get_prop ''createdAt'' c)"

definition compare_comments ::
  "(json option \<Rightarrow> int option) \<Rightarrow> string \<Rightarrow> json \<Rightarrow> json \<Rightarrow> int option" where
  "compare_comments Date opt a b =
     (if opt = ''newest'' then date_minus (createdAt Date b) (createdAt Date a)
      else if opt = ''oldest'' then date_minus (createdAt Date a) (createdAt Date b)
      else Some 0)"

text \<open>
  \<^verbatim>\<open>renderComments\<close>: the spread makes a new array, \<^verbatim>\<open>sort\<close> (the engine's
  \<open>srt\<close>) sorts that array in place, \<^verbatim>\<open>map\<close> builds one element per comment with
  \<open>jsx\<close>. A \<^verbatim>\<open>null\<close> among the
  comments makes the property reads throw.
\<close>

definition renderComments ::
  "((json \<Rightarrow> json \<Rightarrow> int option) \<Rightarrow> json list \<Rightarrow> json list) \<Rightarrow>
   (json option \<Rightarrow> int option) \<Rightarrow> (json \<Rightarrow> 'a) \<Rightarrow> widget \<Rightarrow> (exn + 'a list) \<times> widget" where
  "renderComments srt Date jsx w =
     (case alloc (arrays w (comments w)) w of
        (sortedComments, w1) \<Rightarrow>
          if JNull \<in> set (arrays w1 sortedComments) then (Inl TypeError, w1)
          else
            (let w2 = w1\<lparr>arrays := (arrays w1)(sortedComments :=
                         srt (compare_comments Date (sortOption w1)) (arrays w1 sortedComments))\<rparr>
             in (Inr (map jsx (arrays w2 sortedComments)), w2)))"

text \<open>
  The order of the displayed comments by date, with JavaScript's \<open><\<close> on numbers (false
  when either side is NaN).
\<close>

definition js_less :: "int option \<Rightarrow> int option \<Rightarrow> bool" where
  "js_less a b = (case (a, b) of (Some x, Some y) \<Rightarrow> x < y | _ \<Rightarrow> False)"

definition nonincreasing :: "(json option \<Rightarrow> int option) \<Rightarrow> json list \<Rightarrow> bool" where
  "nonincreasing Date xs = sorted_wrt (\<lambda>a b. \<not> js_less (createdAt Date a) (createdAt Date b)) xs"

definition nondecreasing :: "(json option \<Rightarrow> int option) \<Rightarrow> json list \<Rightarrow> bool" where
  "nondecreasing Date xs = sorted_wrt (\<lambda>a b. \<not> js_less (createdAt Date b) (createdAt Date a)) xs"

section \<open>The states of the widget\<close>

text \<open>The widget as it is mounted: \<^verbatim>\<open>useState([])\<close> and the other initial states.\<close>

definition mounted :: widget where
  "mounted = \<lparr>arrays = (\<lambda>a. []), next_addr = 1, comments = 0, newComment = [],
              sortOption = ''newest'', loading = False, alerts = []\<rparr>"

text \<open>\<^verbatim>\<open>setComments\<close> with a new array.\<close>

definition setComments :: "json list \<Rightarrow> widget \<Rightarrow> widget" where
  "setComments xs w = (case alloc xs w of (a, w1) \<Rightarrow> w1\<lparr>comments := a\<rparr>)"

text \<open>
  The states the widget gets into, talking to this backend. It is mounted; the user types
  and chooses a sort order; \<^verbatim>\<open>fetchComments\<close> receives what \<^verbatim>\<open>getAllComments\<close>
  answered and \<^verbatim>\<open>handleAddComment\<close> what \<^verbatim>\<open>createComment\<close> answered, for any
  request, database and failing calls; every render runs \<^verbatim>\<open>renderComments\<close>. The two
  remaining handlers are taken with all they could do: \<^verbatim>\<open>handleDeleteComment\<close>
  sets the comments to a \<^verbatim>\<open>filter\<close> of them, and \<^verbatim>\<open>handleUpdateComment\<close> to a
  \<^verbatim>\<open>map\<close> of them that leaves a comment as it is or replaces it by a copy of its
  properties with another \<^verbatim>\<open>content\<close>, which changes neither its \<^verbatim>\<open>createdAt\<close>
  nor whether it is null.
\<close>

inductive reachable :: "widget \<Rightarrow> bool" where
  r_mount: "reachable mounted"
| r_type: "reachable w \<Longrightarrow> reachable (w\<lparr>newComment := s\<rparr>)"
| r_sort: "reachable w \<Longrightarrow> reachable (w\<lparr>sortOption := opt\<rparr>)"
| r_fetch: "reachable w \<Longrightarrow> reachable (fetch_from_backend populate rq fl n d token w)"
| r_add: "reachable w \<Longrightarrow>
          reachable (handleAddComment token (res (snd (serve (createComment rq) fl n d))) w)"
| r_render: "reachable w \<Longrightarrow> reachable (snd (renderComments srt Date (\<lambda>c. c) w))"
| r_delete: "reachable w \<Longrightarrow> reachable (setComments (filter keep (arrays w (comments w))) w)"
| r_update: "reachable w \<Longrightarrow>
             \<forall>c. (f c = JNull) = (c = JNull) \<and>
                 get_prop ''createdAt'' (f c) = get_prop ''createdAt'' c \<Longrightarrow>
             reachable (setComments (map f (arrays w (comments w))) w)"

section \<open>Database calls that succeed\<close>

text \<open>
  \<open>next_call_ok\<close>: the next database call of the request does not reject.
  \<open>no_fault\<close>: none does.
\<close>

definition next_call_ok :: "bool list \<Rightarrow> bool" where
  "next_call_ok fl = (case fl of [] \<Rightarrow> True | b # _ \<Rightarrow> \<not> b)"

definition no_fault :: "bool list \<Rightarrow> bool" where
  "no_fault fl = (True \<notin> set fl)"

text \<open>
  A value of \<^verbatim>\<open>tags\<close> or \<^verbatim>\<open>categories\<close> that \<^verbatim>\<open>updatePost\<close> gets through: it is
  missing or falsy, so the loop is skipped, or it can be iterated and each element casts
  to a name.
\<close>

definition iterable_names :: "(json \<Rightarrow> string option) \<Rightarrow> json option \<Rightarrow> bool" where
  "iterable_names castString v =
     (case v of
        None \<Rightarrow> True
      | Some x \<Rightarrow>
          if js_truthy x
          then (case iterate x of
                  None \<Rightarrow> False
                | Some xs \<Rightarrow> list_all (\<lambda>y. name_of castString y \<noteq> None) xs)
          else True)"

text \<open>A cast that fails on every value that is not a string.\<close>

definition no_cast :: "json \<Rightarrow> string option" where
  "no_cast v = None"

section \<open>A small blog\<close>

text \<open>
  Two posts by the users 7 and 8, a comment and a like on each, two tags and two
  categories; the tag 21 is on both posts. ObjectIds from 10 on are unused.
\<close>

definition post1 :: post where
  "post1 = \<lparr>post_id = 1, post_title = Some ''Hello'', post_content = Some ''First post'',
            post_author = 7, post_tags = [20, 21], post_categories = [30],
            post_comments = [3], post_likes = [5]\<rparr>"

definition post2 :: post where
  "post2 = \<lparr>post_id = 2, post_title = Some ''Again'', post_content = Some ''Second post'',
            post_author = 8, post_tags = [21], post_categories = [31],
            post_comments = [4], post_likes = [6]\<rparr>"

definition comment3 :: comment where
  "comment3 = \<lparr>comment_id = 3, comment_content = Some ''Nice'', comment_author = 9,
               comment_post = 1\<rparr>"

definition comment4 :: comment where
  "comment4 = \<lparr>comment_id = 4, comment_content = Some ''Thanks'', comment_author = 7,
               comment_post = 2\<rparr>"

definition like5 :: like where
  "like5 = \<lparr>like_id = 5, like_user = 9, like_post = 1\<rparr>"

definition like6 :: like where
  "like6 = \<lparr>like_id = 6, like_user = 7, like_post = 2\<rparr>"

definition blog :: database where
  "blog = \<lparr>Posts = [post1, post2], Comments = [comment3, comment4], Likes = [like5, like6],
           Tags = [\<lparr>tag_id = 20, tag_name = ''news''\<rparr>, \<lparr>tag_id = 21, tag_name = ''misc''\<rparr>],
           Categories = [\<lparr>category_id = 30, category_name = ''blog''\<rparr>,
                         \<lparr>category_id = 31, category_name = ''notes''\<rparr>]\<rparr>"

text \<open>A request of user \<open>u\<close> for the id \<open>i\<close>, with an empty body.\<close>

definition request :: "oid \<Rightarrow> oid \<Rightarrow> req" where
  "request i u = \<lparr>params_id = i, user_id = u, body_title = None, body_content = None,
                  body_tags = None, body_categories = None\<rparr>"

text \<open>
  A \<open>Date\<close> for comments whose \<^verbatim>\<open>createdAt\<close> is a number of milliseconds within
  the range of a date (8.64e15 either side of the epoch): any other value, and a missing
  one, is an invalid date here.
\<close>

definition Date_ms :: "json option \<Rightarrow> int option" where
  "Date_ms v =
     (case v of
        Some (JNum t) \<Rightarrow> if - 8640000000000000 \<le> t \<and> t \<le> 8640000000000000 then Some t else None
      | _ \<Rightarrow> None)"

text \<open>Two comments created at the times 1 and 2, and a widget that holds a given list.\<close>

definition shown1 :: json where
  "shown1 = JObj [(''_id'', JId 3), (''content'', JStr ''Nice''), (''createdAt'', JNum 1)]"

definition shown2 :: json where
  "shown2 = JObj [(''_id'', JId 4), (''content'', JStr ''Thanks''), (''createdAt'', JNum 2)]"

text \<open>
  The widget after user 9 typed \<^verbatim>\<open>New\<close> and added it as a comment on post 1 of the
  blog.
\<close>

definition added_once :: widget where
  "added_once =
     handleAddComment (Some ''jwt'')
       (res (snd (serve (createComment ((request 1 9)\<lparr>body_content := Some ''New''\<rparr>)) [] 10 blog)))
       (mounted\<lparr>newComment := [78, 101, 119]\<rparr>)"

definition showing :: "json list \<Rightarrow> string \<Rightarrow> widget" where
  "showing xs opt = \<lparr>arrays = (\<lambda>a. if a = 0 then xs else []), next_addr = 1, comments = 0,
                     newComment = [], sortOption = opt, loading = False, alerts = []\<rparr>"

section \<open>Stepping through a handler\<close>

lemma db_call_step:
  "db_call f s =
     (if next_call_ok (faults s)
      then (Inr (fst (f (db s))), s\<lparr>db := snd (f (db s)), faults := tl (faults s)\<rparr>)
      else (Inl DbError, s\<lparr>faults := tl (faults s)\<rparr>))"
  by (cases "faults s") (auto simp: db_call_def next_call_ok_def split: prod.splits)

lemma no_fault_next [simp]: "no_fault fl \<Longrightarrow> next_call_ok fl"
  by (cases fl) (auto simp: no_fault_def next_call_ok_def)

lemma no_fault_tl [simp]: "no_fault fl \<Longrightarrow> no_fault (tl fl)"
  by (cases fl) (auto simp: no_fault_def)

lemmas io_defs = return_def throw_def andThen_def try_catch_def respond_def serve_def

lemmas like_ops =
  Post_findById_def Like_findOne_def new_Like_def post_save_def like_save_def like_deleteOne_def

lemmas comment_ops =
  Comment_find_def Comment_findById_def new_Comment_def comment_save_def comment_deleteOne_def
  Post_updateOne_pull_def

lemmas post_ops =
  Tag_findOne_def new_Tag_def tag_save_def Category_findOne_def new_Category_def
  category_save_def Post_findByIdAndUpdate_def Like_deleteMany_def Comment_deleteMany_def
  post_deleteOne_def cleanUpTags_def cleanUpCategories_def

lemmas blog_defs =
  blog_def post1_def post2_def comment3_def comment4_def like5_def like6_def request_def

lemma find_post_id: "find (\<lambda>p. post_id p = i) ps = Some p \<Longrightarrow> post_id p = i"
  by (auto simp: find_Some_iff)

lemma find_like_user:
  "find (\<lambda>l. like_user l = u \<and> like_post l = p) ls = Some l \<Longrightarrow> like_user l = u \<and> l \<in> set ls"
  by (auto simp: find_Some_iff)

lemma distinct_map_eq:
  "distinct (map f xs) \<Longrightarrow> x \<in> set xs \<Longrightarrow> y \<in> set xs \<Longrightarrow> f x = f y \<Longrightarrow> x = y"
  by (auto simp: distinct_map dest: inj_onD)

lemma find_map_const:
  "find (\<lambda>q. f q = i) xs = Some p \<Longrightarrow> f p' = i \<Longrightarrow>
   find (\<lambda>q. f q = i) (map (\<lambda>q. if f q = i then p' else q) xs) = Some p'"
  by (induction xs) (auto split: if_splits)

lemma find_map_apply:
  "find (\<lambda>q. f q = i) xs = Some p \<Longrightarrow> \<forall>q. f (g q) = f q \<Longrightarrow>
   find (\<lambda>q. f q = i) (map (\<lambda>q. if f q = i then g q else q) xs) = Some (g p)"
  by (induction xs) (auto split: if_splits)

section \<open>A like is added twice\<close>

text \<open>
  C1. When the user has already liked the post, \<^verbatim>\<open>addLike\<close> is to answer 400, create
  no Like and leave the post's \<^verbatim>\<open>likes\<close> unchanged. The branch that answers 400 does
  not return: in the blog, user 9 likes post 1 a second time, the client is answered
  400, and the handler goes on to push the new id 10 onto the post's \<^verbatim>\<open>likes\<close> and
  to save a second Like of user 9 for post 1. When the last save rejects (as it would
  under a unique index on user and post) the post's \<^verbatim>\<open>likes\<close> has been extended all
  the same.
\<close>

theorem addLike_existing_like_not_returned:
  "res (snd (serve (addLike (request 1 9)) [] 10 blog)) =
     Some (400, msg ''You have already liked this post.'') \<and>
   Likes (db (snd (serve (addLike (request 1 9)) [] 10 blog))) =
     [like5, like6, \<lparr>like_id = 10, like_user = 9, like_post = 1\<rparr>] \<and>
   map post_likes (Posts (db (snd (serve (addLike (request 1 9)) [] 10 blog)))) =
     [[5, 10], [6]] \<and>
   map post_likes
     (Posts (db (snd (serve (addLike (request 1 9)) [False, False, False, True] 10 blog)))) =
     [[5, 10], [6]] \<and>
   map post_likes (Posts blog) = [[5], [6]] \<and>
   Likes blog = [like5, like6]"
  by (simp add: addLike_def io_defs db_call_def like_ops blog_defs msg_def)

section \<open>The widget and the shape of the backend's reply\<close>

text \<open>
  C2. After a successful fetch the widget's \<^verbatim>\<open>comments\<close> is to be the list the
  backend returned. \<^verbatim>\<open>getAllComments\<close> answers with an object whose property
  \<^verbatim>\<open>allComments\<close> holds the list; \<^verbatim>\<open>fetchComments\<close> takes the reply itself when
  it is an array, else its property \<^verbatim>\<open>comments\<close>, else the empty array. For post 1
  of the blog the backend returns one comment and the widget, without any alert, holds
  none.
\<close>

theorem fetchComments_misses_allComments:
  "res (snd (serve (getAllComments comment_toJSON (request 1 8)) [] 10 blog)) =
     Some (200, JObj [(''allComments'', JArr [comment_toJSON comment3])]) \<and>
   arrays (fetch_from_backend comment_toJSON (request 1 8) [] 10 blog (Some ''jwt'') mounted)
     (comments (fetch_from_backend comment_toJSON (request 1 8) [] 10 blog (Some ''jwt'') mounted)) =
     [] \<and>
   alerts (fetch_from_backend comment_toJSON (request 1 8) [] 10 blog (Some ''jwt'') mounted) = []"
  by (simp add: fetch_from_backend_def fetchComments_def getAllComments_def io_defs db_call_def
      comment_ops blog_defs mounted_def truthy_def alloc_def get_prop_def Let_def)

section \<open>A database error outside the try block\<close>

text \<open>
  C3. Every controller operation is to catch a thrown database error and answer 500.
  \<^verbatim>\<open>updatePost\<close> and \<^verbatim>\<open>deletePost\<close> await \<^verbatim>\<open>Post.findById\<close> before their
  \<^verbatim>\<open>try\<close> block: when that first call rejects, the error leaves the handler and no
  response is sent, whatever the request and the database.
\<close>

theorem findById_rejection_escapes:
  "fst (serve (updatePost castString rq) (True # fl) n d) = Inl DbError \<and>
   res (snd (serve (updatePost castString rq) (True # fl) n d)) = None \<and>
   fst (serve (deletePost rq) (True # fl) n d) = Inl DbError \<and>
   res (snd (serve (deletePost rq) (True # fl) n d)) = None"
  by (simp add: updatePost_def deletePost_def io_defs db_call_def like_ops Let_def)

section \<open>Cascade delete\<close>

text \<open>
  C4. \<^verbatim>\<open>deletePost\<close>, asked by the author of an existing post, answers 200 when no
  database call rejects. Whenever it answers 200, the likes and the comments afterwards
  are those that do not refer to the post, the posts are the other posts, and the tags
  and categories are those that some remaining post lists.
\<close>

theorem deletePost_cascade:
  assumes "find (\<lambda>p. post_id p = params_id rq) (Posts d) = Some p"
    and "post_author p = user_id rq"
  shows "(no_fault fl \<longrightarrow>
            map_option fst (res (snd (serve (deletePost rq) fl n d))) = Some 200) \<and>
         (map_option fst (res (snd (serve (deletePost rq) fl n d))) = Some 200 \<longrightarrow>
            res (snd (serve (deletePost rq) fl n d)) =
              Some (200, msg (''Post with id:'' @ oid_string (params_id rq) @
                              '' deleted successfully'')) \<and>
            Likes (db (snd (serve (deletePost rq) fl n d))) =
              filter (\<lambda>l. like_post l \<noteq> params_id rq) (Likes d) \<and>
            Comments (db (snd (serve (deletePost rq) fl n d))) =
              filter (\<lambda>c. comment_post c \<noteq> params_id rq) (Comments d) \<and>
            Posts (db (snd (serve (deletePost rq) fl n d))) =
              filter (\<lambda>q. post_id q \<noteq> params_id rq) (Posts d) \<and>
            Tags (db (snd (serve (deletePost rq) fl n d))) =
              filter (\<lambda>t. tag_id t \<in> set (concat (map post_tags
                        (Posts (db (snd (serve (deletePost rq) fl n d)))))))
                (Tags d) \<and>
            Categories (db (snd (serve (deletePost rq) fl n d))) =
              filter (\<lambda>c. category_id c \<in> set (concat (map post_categories
                        (Posts (db (snd (serve (deletePost rq) fl n d)))))))
                (Categories d))"
  using assms find_post_id [OF assms(1)]
  by (simp add: deletePost_def io_defs like_ops post_ops db_call_step Let_def)

text \<open>
  User 7 deletes post 1 of the blog: post 2 stays with its comment and its like, and of
  the tags and categories those of post 2.
\<close>

theorem deletePost_cascade_witness:
  "find (\<lambda>p. post_id p = params_id (request 1 7)) (Posts blog) = Some post1 \<and>
   post_author post1 = user_id (request 1 7) \<and>
   no_fault [] \<and>
   map_option fst (res (snd (serve (deletePost (request 1 7)) [] 10 blog))) = Some 200 \<and>
   Posts (db (snd (serve (deletePost (request 1 7)) [] 10 blog))) = [post2] \<and>
   Comments (db (snd (serve (deletePost (request 1 7)) [] 10 blog))) = [comment4] \<and>
   Likes (db (snd (serve (deletePost (request 1 7)) [] 10 blog))) = [like6] \<and>
   Tags (db (snd (serve (deletePost (request 1 7)) [] 10 blog))) =
     [\<lparr>tag_id = 21, tag_name = ''misc''\<rparr>] \<and>
   Categories (db (snd (serve (deletePost (request 1 7)) [] 10 blog))) =
     [\<lparr>category_id = 31, category_name = ''notes''\<rparr>]"
proof -
  have h1: "find (\<lambda>p. post_id p = params_id (request 1 7)) (Posts blog) = Some post1"
    by (simp add: blog_defs)
  have h2: "post_author post1 = user_id (request 1 7)"
    by (simp add: blog_defs)
  have h3: "no_fault []"
    by (simp add: no_fault_def)
  show ?thesis
    using deletePost_cascade [OF h1 h2, of "[]" 10] h1 h2 h3
    by (simp add: blog_defs)
qed

section \<open>Only the author edits or deletes\<close>

text \<open>
  C5. \<^verbatim>\<open>editCommentById\<close> and \<^verbatim>\<open>deleteCommentById\<close> on an existing comment whose
  author is not the requesting user leave the database as it was (so the comment and
  the \<^verbatim>\<open>comments\<close> of its post), and answer 403 once \<^verbatim>\<open>Comment.findById\<close> has
  returned the comment.
\<close>

theorem comment_not_author_forbidden:
  assumes "find (\<lambda>c. comment_id c = params_id rq) (Comments d) = Some c"
    and "comment_author c \<noteq> user_id rq"
  shows "db (snd (serve (editCommentById rq) fl n d)) = d \<and>
         db (snd (serve (deleteCommentById rq) fl n d)) = d \<and>
         (next_call_ok fl \<longrightarrow>
            res (snd (serve (editCommentById rq) fl n d)) =
              Some (403, msg ''You are not the Author. You may not edit this comment'') \<and>
            res (snd (serve (deleteCommentById rq) fl n d)) =
              Some (403, msg ''You are not the Author. You may not edit this comment''))"
  using assms
  by (auto simp: editCommentById_def deleteCommentById_def io_defs comment_ops db_call_step)

theorem comment_not_author_forbidden_witness:
  "find (\<lambda>c. comment_id c = params_id (request 3 7)) (Comments blog) = Some comment3 \<and>
   comment_author comment3 \<noteq> user_id (request 3 7) \<and>
   next_call_ok [] \<and>
   db (snd (serve (editCommentById (request 3 7)) [] 10 blog)) = blog \<and>
   db (snd (serve (deleteCommentById (request 3 7)) [] 10 blog)) = blog \<and>
   res (snd (serve (editCommentById (request 3 7)) [] 10 blog)) =
     Some (403, msg ''You are not the Author. You may not edit this comment'') \<and>
   res (snd (serve (deleteCommentById (request 3 7)) [] 10 blog)) =
     Some (403, msg ''You are not the Author. You may not edit this comment'')"
proof -
  have h1: "find (\<lambda>c. comment_id c = params_id (request 3 7)) (Comments blog) = Some comment3"
    by (simp add: blog_defs)
  have h2: "comment_author comment3 \<noteq> user_id (request 3 7)"
    by (simp add: blog_defs)
  have h3: "next_call_ok []"
    by (simp add: next_call_ok_def)
  show ?thesis
    using comment_not_author_forbidden [OF h1 h2, of "[]" 10] h1 h2 h3
    by simp
qed

text \<open>
  C6. \<^verbatim>\<open>updatePost\<close> and \<^verbatim>\<open>deletePost\<close> on an existing post whose author is not the
  requesting user leave every collection as it was, and answer 403 once
  \<^verbatim>\<open>Post.findById\<close> has returned the post.
\<close>

theorem post_not_author_forbidden:
  assumes "find (\<lambda>p. post_id p = params_id rq) (Posts d) = Some p"
    and "post_author p \<noteq> user_id rq"
  shows "db (snd (serve (updatePost castString rq) fl n d)) = d \<and>
         db (snd (serve (deletePost rq) fl n d)) = d \<and>
         (next_call_ok fl \<longrightarrow>
            res (snd (serve (updatePost castString rq) fl n d)) =
              Some (403, msg ''You are not the author of this post.'') \<and>
            res (snd (serve (deletePost rq) fl n d)) =
              Some (403, msg ''You are not the author of this post.''))"
  using assms
  by (auto simp: updatePost_def deletePost_def io_defs like_ops db_call_step Let_def)

theorem post_not_author_forbidden_witness:
  "find (\<lambda>p. post_id p = params_id (request 1 8)) (Posts blog) = Some post1 \<and>
   post_author post1 \<noteq> user_id (request 1 8) \<and>
   next_call_ok [] \<and>
   db (snd (serve (updatePost no_cast (request 1 8)) [] 10 blog)) = blog \<and>
   db (snd (serve (deletePost (request 1 8)) [] 10 blog)) = blog \<and>
   res (snd (serve (updatePost no_cast (request 1 8)) [] 10 blog)) =
     Some (403, msg ''You are not the author of this post.'') \<and>
   res (snd (serve (deletePost (request 1 8)) [] 10 blog)) =
     Some (403, msg ''You are not the author of this post.'')"
proof -
  have h1: "find (\<lambda>p. post_id p = params_id (request 1 8)) (Posts blog) = Some post1"
    by (simp add: blog_defs)
  have h2: "post_author post1 \<noteq> user_id (request 1 8)"
    by (simp add: blog_defs)
  have h3: "next_call_ok []"
    by (simp add: next_call_ok_def)
  show ?thesis
    using post_not_author_forbidden [OF h1 h2, of no_cast "[]" 10] h1 h2 h3
    by simp
qed

section \<open>Two writes, no transaction\<close>

text \<open>
  C7. The paired writes are not atomic. User 8 likes post 1 and the fourth database
  call, \<^verbatim>\<open>like.save()\<close>, rejects after \<^verbatim>\<open>post.save()\<close> went through: the answer is
  500, the post's \<^verbatim>\<open>likes\<close> holds the id 10 and no Like has that id. User 8 comments
  on post 1 and the third call, \<^verbatim>\<open>chosenPost.save()\<close>, rejects after
  \<^verbatim>\<open>comment.save()\<close> went through: the answer is 500, the comment 10 is stored and
  the \<^verbatim>\<open>comments\<close> of post 1 do not list it. Neither first write is undone.
\<close>

theorem denormalized_writes_not_atomic:
  "res (snd (serve (addLike (request 1 8)) [False, False, False, True] 10 blog)) =
     Some (500, msg_error ''Failed to add like to post.'' DbError) \<and>
   map post_likes
     (Posts (db (snd (serve (addLike (request 1 8)) [False, False, False, True] 10 blog)))) =
     [[5, 10], [6]] \<and>
   find (\<lambda>l. like_id l = 10)
     (Likes (db (snd (serve (addLike (request 1 8)) [False, False, False, True] 10 blog)))) =
     None \<and>
   res (snd (serve (createComment ((request 1 8)\<lparr>body_content := Some ''New''\<rparr>))
              [False, False, True] 10 blog)) =
     Some (500, msg_error ''Failed to fetch comment'' DbError) \<and>
   Comments (db (snd (serve (createComment ((request 1 8)\<lparr>body_content := Some ''New''\<rparr>))
                        [False, False, True] 10 blog))) =
     [comment3, comment4,
      \<lparr>comment_id = 10, comment_content = Some ''New'', comment_author = 8, comment_post = 1\<rparr>] \<and>
   map post_comments
     (Posts (db (snd (serve (createComment ((request 1 8)\<lparr>body_content := Some ''New''\<rparr>))
                        [False, False, True] 10 blog)))) =
     [[3], [4]]"
  by (simp add: addLike_def createComment_def io_defs db_call_def like_ops comment_ops
      blog_defs Let_def)

section \<open>The order of the displayed comments\<close>

lemma mset_insert_sorted: "mset (insert_sorted f x ys) = add_mset x (mset ys)"
  by (induction ys) auto

lemma mset_stable_sort: "mset (stable_sort f xs) = mset xs"
  by (induction xs) (auto simp: stable_sort_def mset_insert_sorted)

lemma set_insert_sorted: "set (insert_sorted f x ys) = insert x (set ys)"
  by (induction ys) auto

lemma set_stable_sort: "set (stable_sort f xs) = set xs"
  using mset_stable_sort [of f xs] by (metis set_mset_mset)

text \<open>Under a consistent comparator no element stands before a smaller one.\<close>

lemma insert_sorted_ordered:
  assumes "consistent f zs" and "x \<in> set zs" and "set ys \<subseteq> set zs"
    and "sorted_wrt (\<lambda>a b. sort_compare f a b \<le> 0) ys"
  shows "sorted_wrt (\<lambda>a b. sort_compare f a b \<le> 0) (insert_sorted f x ys)"
  using assms(3,4)
proof (induction ys)
  case Nil
  then show ?case by simp
next
  case (Cons y ys)
  have y: "y \<in> set zs" and ys: "set ys \<subseteq> set zs"
    using Cons.prems(1) by auto
  have trans: "\<And>a b c. a \<in> set zs \<Longrightarrow> b \<in> set zs \<Longrightarrow> c \<in> set zs \<Longrightarrow>
      sort_compare f a b \<le> 0 \<Longrightarrow> sort_compare f b c \<le> 0 \<Longrightarrow> sort_compare f a c \<le> 0"
    using assms(1) unfolding consistent_def by blast
  have flip: "\<And>a b. a \<in> set zs \<Longrightarrow> b \<in> set zs \<Longrightarrow>
      (sort_compare f a b < 0) = (0 < sort_compare f b a)"
    using assms(1) unfolding consistent_def by blast
  show ?case
  proof (cases "sort_compare f x y \<le> 0")
    case True
    have "\<forall>z\<in>set ys. sort_compare f x z \<le> 0"
    proof
      fix z assume z: "z \<in> set ys"
      then have "sort_compare f y z \<le> 0" using Cons.prems(2) by simp
      with True show "sort_compare f x z \<le> 0"
        using trans [OF assms(2) y] z ys by blast
    qed
    with True Cons.prems(2) show ?thesis by simp
  next
    case False
    then have "sort_compare f y x < 0"
      using flip [OF y assms(2)] by simp
    then have "sort_compare f y x \<le> 0" by simp
    moreover have "sorted_wrt (\<lambda>a b. sort_compare f a b \<le> 0) (insert_sorted f x ys)"
      using Cons.IH [OF ys] Cons.prems(2) by simp
    ultimately show ?thesis
      using False Cons.prems(2) by (simp add: set_insert_sorted)
  qed
qed

lemma stable_sort_ordered_sub:
  assumes "consistent f zs"
  shows "set xs \<subseteq> set zs \<Longrightarrow> sorted_wrt (\<lambda>a b. sort_compare f a b \<le> 0) (stable_sort f xs)"
proof (induction xs)
  case Nil
  then show ?case by (simp add: stable_sort_def)
next
  case (Cons x xs)
  have step: "stable_sort f (x # xs) = insert_sorted f x (stable_sort f xs)"
    by (simp add: stable_sort_def)
  show ?case
    unfolding step
    using Cons insert_sorted_ordered [OF assms, of x "stable_sort f xs"]
    by (simp add: set_stable_sort)
qed

lemma stable_sort_ordered:
  "consistent f xs \<Longrightarrow> sorted_wrt (\<lambda>a b. sort_compare f a b \<le> 0) (stable_sort f xs)"
  using stable_sort_ordered_sub [of f xs xs] by simp

text \<open>What the comparator's order means for the dates.\<close>

lemma newest_order:
  "sort_compare (compare_comments Date ''newest'') a b \<le> 0 \<Longrightarrow>
   \<not> js_less (createdAt Date a) (createdAt Date b)"
  by (auto simp: sort_compare_def compare_comments_def date_minus_def js_less_def
      split: option.splits)

lemma oldest_order:
  "sort_compare (compare_comments Date ''oldest'') a b \<le> 0 \<Longrightarrow>
   \<not> js_less (createdAt Date b) (createdAt Date a)"
  by (auto simp: sort_compare_def compare_comments_def date_minus_def js_less_def
      split: option.splits)

lemma ordered_newest:
  "sorted_wrt (\<lambda>a b. sort_compare (compare_comments Date ''newest'') a b \<le> 0) ys \<Longrightarrow>
   nonincreasing Date ys"
  unfolding nonincreasing_def
  by (erule sorted_wrt_mono_rel [rotated]) (simp add: newest_order)

lemma ordered_oldest:
  "sorted_wrt (\<lambda>a b. sort_compare (compare_comments Date ''oldest'') a b \<le> 0) ys \<Longrightarrow>
   nondecreasing Date ys"
  unfolding nondecreasing_def
  by (erule sorted_wrt_mono_rel [rotated]) (simp add: oldest_order)

text \<open>
  The comparator of \<^verbatim>\<open>renderComments\<close> is consistent on comments that all have a valid
  date, and on comments that all have no \<^verbatim>\<open>createdAt\<close>.
\<close>

lemma consistent_valid:
  "\<forall>c\<in>set xs. createdAt Date c \<noteq> None \<Longrightarrow> consistent (compare_comments Date opt) xs"
  unfolding consistent_def
  by (auto simp: sort_compare_def compare_comments_def date_minus_def split: option.splits)

lemma consistent_undated:
  "\<forall>c\<in>set xs. get_prop ''createdAt'' c = None \<Longrightarrow> consistent (compare_comments Date opt) xs"
  unfolding consistent_def
  by (auto simp: sort_compare_def compare_comments_def date_minus_def createdAt_def
      split: option.splits)

text \<open>
  In every state the widget gets into, the array of the state is in the heap and each of
  its comments is an object without a \<^verbatim>\<open>createdAt\<close>: what this backend sends on
  \<^verbatim>\<open>createComment\<close> wraps the comment in a reply, and what it sends on
  \<^verbatim>\<open>getAllComments\<close> leaves the widget with the empty array.
\<close>

lemma reachable_undated:
  "reachable w \<Longrightarrow>
   comments w < next_addr w \<and>
   (\<forall>c\<in>set (arrays w (comments w)). c \<noteq> JNull \<and> get_prop ''createdAt'' c = None)"
proof (induction rule: reachable.induct)
  case r_mount
  show ?case by (simp add: mounted_def)
next
  case (r_type w s)
  then show ?case by simp
next
  case (r_sort w opt)
  then show ?case by simp
next
  case (r_fetch w populate rq fl n d token)
  then show ?case
    by (auto simp: fetch_from_backend_def fetchComments_def getAllComments_def io_defs
        comment_ops db_call_step alert_def alloc_def get_prop_def msg_error_def Let_def)
next
  case (r_add w token rq fl n d)
  then show ?case
    by (auto simp: handleAddComment_def createComment_def io_defs like_ops comment_ops
        db_call_step alert_def alloc_def get_prop_def msg_def msg_error_def Let_def
        split: option.splits)
next
  case (r_render w srt Date)
  then show ?case
    by (auto simp: renderComments_def alloc_def Let_def)
next
  case (r_delete w keep)
  then show ?case
    by (auto simp: setComments_def alloc_def)
next
  case (r_update w f)
  then show ?case
    by (auto simp: setComments_def alloc_def)
qed

lemma renderComments_consistent:
  assumes "conforming srt"
    and "comments w < next_addr w"
    and "JNull \<notin> set (arrays w (comments w))"
    and "consistent (compare_comments Date (sortOption w)) (arrays w (comments w))"
  shows "fst (renderComments srt Date jsx w) =
           Inr (map jsx (stable_sort (compare_comments Date (sortOption w))
                           (arrays w (comments w)))) \<and>
         (sortOption w = ''newest'' \<longrightarrow>
            nonincreasing Date
              (stable_sort (compare_comments Date (sortOption w)) (arrays w (comments w)))) \<and>
         (sortOption w = ''oldest'' \<longrightarrow>
            nondecreasing Date
              (stable_sort (compare_comments Date (sortOption w)) (arrays w (comments w)))) \<and>
         arrays (snd (renderComments srt Date jsx w)) (comments w) = arrays w (comments w) \<and>
         comments (snd (renderComments srt Date jsx w)) = comments w"
proof -
  have same: "srt (compare_comments Date (sortOption w)) (arrays w (comments w)) =
              stable_sort (compare_comments Date (sortOption w)) (arrays w (comments w))"
    using assms(1,4) unfolding conforming_def by blast
  have ordered: "sorted_wrt (\<lambda>a b. sort_compare (compare_comments Date (sortOption w)) a b \<le> 0)
                   (stable_sort (compare_comments Date (sortOption w)) (arrays w (comments w)))"
    by (rule stable_sort_ordered [OF assms(4)])
  have newest: "sortOption w = ''newest'' \<longrightarrow>
      nonincreasing Date
        (stable_sort (compare_comments Date (sortOption w)) (arrays w (comments w)))"
    using ordered ordered_newest [of Date] by auto
  have oldest: "sortOption w = ''oldest'' \<longrightarrow>
      nondecreasing Date
        (stable_sort (compare_comments Date (sortOption w)) (arrays w (comments w)))"
    using ordered ordered_oldest [of Date] by auto
  show ?thesis
    using assms(2,3) same newest oldest
    by (simp add: renderComments_def alloc_def Let_def)
qed

text \<open>
  C8. For the comments the widget holds in any state it gets into, and for any comments
  that all have a valid date, \<^verbatim>\<open>renderComments\<close> on a conforming engine displays the
  same comments in nonincreasing \<^verbatim>\<open>createdAt\<close> order when \<^verbatim>\<open>sortOption\<close> is
  \<^verbatim>\<open>newest\<close> and in nondecreasing order when it is \<^verbatim>\<open>oldest\<close>; the array of
  the state and the state variable are as before, since the sort ran on a copy.
\<close>

theorem renderComments_sorted_copy:
  assumes "conforming srt"
    and "reachable w \<or>
         (comments w < next_addr w \<and>
          (\<forall>c\<in>set (arrays w (comments w)). c \<noteq> JNull \<and> createdAt Date c \<noteq> None))"
  shows "fst (renderComments srt Date jsx w) =
           Inr (map jsx (stable_sort (compare_comments Date (sortOption w))
                           (arrays w (comments w)))) \<and>
         mset (stable_sort (compare_comments Date (sortOption w)) (arrays w (comments w))) =
           mset (arrays w (comments w)) \<and>
         (sortOption w = ''newest'' \<longrightarrow>
            nonincreasing Date
              (stable_sort (compare_comments Date (sortOption w)) (arrays w (comments w)))) \<and>
         (sortOption w = ''oldest'' \<longrightarrow>
            nondecreasing Date
              (stable_sort (compare_comments Date (sortOption w)) (arrays w (comments w)))) \<and>
         arrays (snd (renderComments srt Date jsx w)) (comments w) = arrays w (comments w) \<and>
         comments (snd (renderComments srt Date jsx w)) = comments w"
proof -
  have held: "comments w < next_addr w \<and> JNull \<notin> set (arrays w (comments w)) \<and>
              consistent (compare_comments Date (sortOption w)) (arrays w (comments w))"
    using assms(2)
  proof
    assume "reachable w"
    from reachable_undated [OF this] show ?thesis
      using consistent_undated [of "arrays w (comments w)" Date "sortOption w"] by auto
  next
    assume "comments w < next_addr w \<and>
            (\<forall>c\<in>set (arrays w (comments w)). c \<noteq> JNull \<and> createdAt Date c \<noteq> None)"
    then show ?thesis
      using consistent_valid [of "arrays w (comments w)" Date "sortOption w"] by auto
  qed
  then show ?thesis
    using renderComments_consistent [OF assms(1), of w Date jsx]
    by (simp add: mset_stable_sort)
qed

text \<open>
  The widget that added one comment displays the reply it stored; a widget that holds the
  comments of the times 1 and 2 displays the one of time 2 first.
\<close>

theorem renderComments_sorted_copy_witness:
  "conforming stable_sort \<and>
   reachable added_once \<and>
   fst (renderComments stable_sort Date_ms id added_once) =
     Inr [JObj [(''message'', JStr ''Comment created successfully''),
                (''comment'', comment_toJSON \<lparr>comment_id = 10, comment_content = Some ''New'',
                                               comment_author = 9, comment_post = 1\<rparr>)]] \<and>
   arrays (snd (renderComments stable_sort Date_ms id added_once)) (comments added_once) =
     arrays added_once (comments added_once) \<and>
   comments (showing [shown1, shown2] ''newest'') < next_addr (showing [shown1, shown2] ''newest'') \<and>
   list_all (\<lambda>c. c \<noteq> JNull \<and> createdAt Date_ms c \<noteq> None) [shown1, shown2] \<and>
   fst (renderComments stable_sort Date_ms id (showing [shown1, shown2] ''newest'')) =
     Inr [shown2, shown1] \<and>
   nonincreasing Date_ms [shown2, shown1] \<and>
   arrays (snd (renderComments stable_sort Date_ms id (showing [shown1, shown2] ''newest''))) 0 =
     [shown1, shown2]"
proof -
  have h0: "conforming stable_sort"
    by (simp add: conforming_def)
  have h1: "reachable added_once"
    unfolding added_once_def by (intro r_add r_type r_mount)
  have entries: "arrays added_once (comments added_once) =
      [JObj [(''message'', JStr ''Comment created successfully''),
             (''comment'', comment_toJSON \<lparr>comment_id = 10, comment_content = Some ''New'',
                                            comment_author = 9, comment_post = 1\<rparr>)]]"
    by (simp add: added_once_def handleAddComment_def createComment_def io_defs db_call_def
        like_ops comment_ops blog_defs mounted_def truthy_def blank_def js_whitespace_def
        alloc_def Let_def)
  have h2: "comments (showing [shown1, shown2] ''newest'') <
            next_addr (showing [shown1, shown2] ''newest'') \<and>
            (\<forall>c\<in>set (arrays (showing [shown1, shown2] ''newest'')
                        (comments (showing [shown1, shown2] ''newest''))).
               c \<noteq> JNull \<and> createdAt Date_ms c \<noteq> None)"
    by (simp add: showing_def shown1_def shown2_def createdAt_def Date_ms_def get_prop_def)
  have sorted: "stable_sort (compare_comments Date_ms ''newest'') [shown1, shown2] =
                [shown2, shown1]"
    by (simp add: stable_sort_def sort_compare_def compare_comments_def date_minus_def
        createdAt_def Date_ms_def get_prop_def shown1_def shown2_def)
  have first: "fst (renderComments stable_sort Date_ms id added_once) =
                 Inr (arrays added_once (comments added_once)) \<and>
               arrays (snd (renderComments stable_sort Date_ms id added_once))
                 (comments added_once) = arrays added_once (comments added_once)"
    using renderComments_sorted_copy [OF h0 disjI1 [OF h1], where Date = Date_ms and jsx = id] entries
    by (simp add: stable_sort_def)
  have second: "fst (renderComments stable_sort Date_ms id (showing [shown1, shown2] ''newest'')) =
                  Inr [shown2, shown1] \<and>
                nonincreasing Date_ms [shown2, shown1] \<and>
                arrays (snd (renderComments stable_sort Date_ms id
                               (showing [shown1, shown2] ''newest''))) 0 = [shown1, shown2]"
    using renderComments_sorted_copy [OF h0 disjI2 [OF h2], where jsx = id] sorted
    by (simp add: showing_def)
  show ?thesis
    using h0 h1 h2 first second entries
    by (simp add: showing_def)
qed

section \<open>Removing a like\<close>

text \<open>
  C9. \<^verbatim>\<open>removeLike\<close> never answers 403: the like \<^verbatim>\<open>Like.findOne\<close> returns was
  searched by the requesting user, so the inequality guard does not fire. With the
  \<^verbatim>\<open>_id\<close>s of the likes distinct, as the store keeps them, the likes of every other
  user are afterwards what they were: only a like of the caller is deleted.
\<close>

theorem removeLike_forbidden_unreachable:
  "(fst (Like_findOne (user_id rq) (params_id rq) s) = Inr (Some l) \<longrightarrow>
      like_user l = user_id rq) \<and>
   map_option fst (res (snd (serve (removeLike rq) fl n d))) \<noteq> Some 403 \<and>
   (distinct (map like_id (Likes d)) \<longrightarrow>
      filter (\<lambda>l. like_user l \<noteq> user_id rq) (Likes (db (snd (serve (removeLike rq) fl n d)))) =
      filter (\<lambda>l. like_user l \<noteq> user_id rq) (Likes d))"
  by (auto simp: removeLike_def io_defs like_ops db_call_step Let_def
      dest!: find_like_user dest: distinct_map_eq split: option.splits intro!: filter_cong)

theorem removeLike_forbidden_unreachable_witness:
  "distinct (map like_id (Likes blog)) \<and>
   res (snd (serve (removeLike (request 1 9)) [] 10 blog)) =
     Some (200, msg ''Like removed successfully.'') \<and>
   Likes (db (snd (serve (removeLike (request 1 9)) [] 10 blog))) = [like6] \<and>
   filter (\<lambda>l. like_user l \<noteq> user_id (request 1 9)) (Likes blog) = [like6]"
proof -
  have h: "distinct (map like_id (Likes blog))"
    by (simp add: blog_defs)
  show ?thesis
    using removeLike_forbidden_unreachable [where rq = "request 1 9" and fl = "[]" and n = 10
        and d = blog] h
    by (simp add: removeLike_def io_defs db_call_def like_ops blog_defs msg_def)
qed

section \<open>Falsy fields of an update\<close>

lemma createOrGetTags_loop_ok:
  "no_fault (faults s) \<Longrightarrow> list_all (\<lambda>y. name_of castString y \<noteq> None) names \<Longrightarrow>
   \<exists>ids s'. createOrGetTags_loop castString acc names s = (Inr ids, s') \<and>
     Posts (db s') = Posts (db s) \<and> res s' = res s \<and> no_fault (faults s')"
proof (induction names arbitrary: acc s)
  case Nil
  then show ?case by (simp add: return_def)
next
  case (Cons x names)
  from Cons.prems(2) obtain name where name: "name_of castString x = Some name"
    by auto
  have rest: "list_all (\<lambda>y. name_of castString y \<noteq> None) names"
    using Cons.prems(2) by simp
  show ?case
  proof (cases "find (\<lambda>t. tag_name t = name) (Tags (db s))")
    case None
    let ?t = "\<lparr>tag_id = fresh s, tag_name = name\<rparr>"
    let ?s1 = "s\<lparr>faults := tl (faults s), fresh := Suc (fresh s),
                   db := (db s)\<lparr>Tags := Tags (db s) @ [?t]\<rparr>, faults := tl (tl (faults s))\<rparr>"
    have step: "createOrGetTags_loop castString acc (x # names) s =
                createOrGetTags_loop castString (acc @ [fresh s]) names ?s1"
      using Cons.prems(1) None name
      by (simp add: io_defs post_ops db_call_step)
    have "no_fault (faults ?s1)"
      using Cons.prems(1) by simp
    from Cons.IH [OF this rest, of "acc @ [fresh s]"] show ?thesis
      unfolding step by simp
  next
    case (Some t)
    let ?s1 = "s\<lparr>faults := tl (faults s)\<rparr>"
    have step: "createOrGetTags_loop castString acc (x # names) s =
                createOrGetTags_loop castString (acc @ [tag_id t]) names ?s1"
      using Cons.prems(1) Some name
      by (simp add: io_defs post_ops db_call_step)
    have "no_fault (faults ?s1)"
      using Cons.prems(1) by simp
    from Cons.IH [OF this rest, of "acc @ [tag_id t]"] show ?thesis
      unfolding step by simp
  qed
qed

lemma createOrGetCategories_loop_ok:
  "no_fault (faults s) \<Longrightarrow> list_all (\<lambda>y. name_of castString y \<noteq> None) names \<Longrightarrow>
   \<exists>ids s'. createOrGetCategories_loop castString acc names s = (Inr ids, s') \<and>
     Posts (db s') = Posts (db s) \<and> res s' = res s \<and> no_fault (faults s')"
proof (induction names arbitrary: acc s)
  case Nil
  then show ?case by (simp add: return_def)
next
  case (Cons x names)
  from Cons.prems(2) obtain name where name: "name_of castString x = Some name"
    by auto
  have rest: "list_all (\<lambda>y. name_of castString y \<noteq> None) names"
    using Cons.prems(2) by simp
  show ?case
  proof (cases "find (\<lambda>c. category_name c = name) (Categories (db s))")
    case None
    let ?c = "\<lparr>category_id = fresh s, category_name = name\<rparr>"
    let ?s1 = "s\<lparr>faults := tl (faults s), fresh := Suc (fresh s),
                   db := (db s)\<lparr>Categories := Categories (db s) @ [?c]\<rparr>,
                   faults := tl (tl (faults s))\<rparr>"
    have step: "createOrGetCategories_loop castString acc (x # names) s =
                createOrGetCategories_loop castString (acc @ [fresh s]) names ?s1"
      using Cons.prems(1) None name
      by (simp add: io_defs post_ops db_call_step)
    have "no_fault (faults ?s1)"
      using Cons.prems(1) by simp
    from Cons.IH [OF this rest, of "acc @ [fresh s]"] show ?thesis
      unfolding step by simp
  next
    case (Some c)
    let ?s1 = "s\<lparr>faults := tl (faults s)\<rparr>"
    have step: "createOrGetCategories_loop castString acc (x # names) s =
                createOrGetCategories_loop castString (acc @ [category_id c]) names ?s1"
      using Cons.prems(1) Some name
      by (simp add: io_defs post_ops db_call_step)
    have "no_fault (faults ?s1)"
      using Cons.prems(1) by simp
    from Cons.IH [OF this rest, of "acc @ [category_id c]"] show ?thesis
      unfolding step by simp
  qed
qed

lemma tags_step:
  assumes "no_fault (faults s)" and "iterable_names castString tags"
  shows "\<exists>e' s'. (case tags of None \<Rightarrow> return e
            | Some ts \<Rightarrow>
                if js_truthy ts
                then andThen (createOrGetTags castString ts)
                       (\<lambda>tagIds. return (e\<lparr>ed_tags := tagIds\<rparr>))
                else return e) s
           = (Inr e', s') \<and> ed_title e' = ed_title e \<and> ed_content e' = ed_content e \<and>
           Posts (db s') = Posts (db s) \<and> res s' = res s \<and> no_fault (faults s')"
proof (cases "case tags of None \<Rightarrow> False | Some ts \<Rightarrow> js_truthy ts")
  case False
  then show ?thesis using assms(1) by (auto simp: return_def split: option.splits)
next
  case True
  then obtain ts xs where ts: "tags = Some ts" "js_truthy ts" "iterate ts = Some xs"
    "list_all (\<lambda>y. name_of castString y \<noteq> None) xs"
    using assms(2) by (auto simp: iterable_names_def split: option.splits)
  from createOrGetTags_loop_ok [OF assms(1) ts(4), of "[]"] obtain ids s' where
    "createOrGetTags_loop castString [] xs s = (Inr ids, s')" "Posts (db s') = Posts (db s)"
    "res s' = res s" "no_fault (faults s')"
    by blast
  then show ?thesis using ts
    by (simp add: andThen_def return_def createOrGetTags_def)
qed

lemma categories_step:
  assumes "no_fault (faults s)" and "iterable_names castString categories"
  shows "\<exists>e' s'. (case categories of None \<Rightarrow> return e
            | Some cs \<Rightarrow>
                if js_truthy cs
                then andThen (createOrGetCategories castString cs)
                       (\<lambda>categoryIds. return (e\<lparr>ed_categories := categoryIds\<rparr>))
                else return e) s
           = (Inr e', s') \<and> ed_title e' = ed_title e \<and> ed_content e' = ed_content e \<and>
           Posts (db s') = Posts (db s) \<and> res s' = res s \<and> no_fault (faults s')"
proof (cases "case categories of None \<Rightarrow> False | Some cs \<Rightarrow> js_truthy cs")
  case False
  then show ?thesis using assms(1) by (auto simp: return_def split: option.splits)
next
  case True
  then obtain cs xs where cs: "categories = Some cs" "js_truthy cs" "iterate cs = Some xs"
    "list_all (\<lambda>y. name_of castString y \<noteq> None) xs"
    using assms(2) by (auto simp: iterable_names_def split: option.splits)
  from createOrGetCategories_loop_ok [OF assms(1) cs(4), of "[]"] obtain ids s' where
    "createOrGetCategories_loop castString [] xs s = (Inr ids, s')"
    "Posts (db s') = Posts (db s)" "res s' = res s" "no_fault (faults s')"
    by blast
  then show ?thesis using cs
    by (simp add: andThen_def return_def createOrGetCategories_def)
qed

lemma editComment_falsy:
  assumes "find (\<lambda>c. comment_id c = params_id rq) (Comments d) = Some c"
    and "comment_author c = user_id rq"
    and "body_content rq = None \<or> body_content rq = Some []"
    and "no_fault fl"
  shows "res (snd (serve (editCommentById rq) fl n d)) =
           Some (200, JObj [(''message'', JStr ''Comment updated successfully''),
                            (''comment'', comment_toJSON c)]) \<and>
         find (\<lambda>c. comment_id c = params_id rq)
           (Comments (db (snd (serve (editCommentById rq) fl n d)))) = Some c"
proof -
  have cid: "comment_id c = params_id rq"
    using assms(1) by (auto simp: find_Some_iff)
  have keep: "js_or (body_content rq) (comment_content c) = comment_content c"
    using assms(3) by (auto simp: js_or_def truthy_def)
  have same: "c\<lparr>comment_content := comment_content c\<rparr> = c"
    by simp
  show ?thesis
    using assms(1,2,4) find_map_const [OF assms(1) cid] cid
    by (simp add: editCommentById_def io_defs comment_ops db_call_step Let_def keep same)
qed

lemma updatePost_falsy:
  assumes found: "find (\<lambda>p. post_id p = params_id rq) (Posts d) = Some p"
    and author: "post_author p = user_id rq"
    and ok: "no_fault fl"
    and tags: "iterable_names castString (body_tags rq)"
    and cats: "iterable_names castString (body_categories rq)"
  shows "\<exists>up. find (\<lambda>p. post_id p = params_id rq)
                 (Posts (db (snd (serve (updatePost castString rq) fl n d)))) = Some up \<and>
          res (snd (serve (updatePost castString rq) fl n d)) =
            Some (200, JObj [(''message'', JStr ''Post updated successfully''),
                             (''updatedPost'', post_toJSON up)]) \<and>
          (body_title rq = None \<or> body_title rq = Some [] \<longrightarrow> post_title up = post_title p) \<and>
          (body_content rq = None \<or> body_content rq = Some [] \<longrightarrow>
             post_content up = post_content p)"
proof -
  let ?e0 = "\<lparr>ed_title = (if truthy (body_title rq) then body_title rq else post_title p),
              ed_content = (if truthy (body_content rq) then body_content rq else post_content p),
              ed_tags = post_tags p, ed_categories = post_categories p\<rparr>"
  let ?s0 = "\<lparr>db = d, fresh = n, faults = tl fl, res = None\<rparr>"
  have s0: "no_fault (faults ?s0)"
    using ok by simp
  from tags_step [OF s0 tags, where e = "?e0"] obtain e1 s1 where
    t: "(case body_tags rq of None \<Rightarrow> return ?e0
          | Some ts \<Rightarrow>
              if js_truthy ts
              then andThen (createOrGetTags castString ts)
                     (\<lambda>tagIds. return (?e0\<lparr>ed_tags := tagIds\<rparr>))
              else return ?e0) ?s0
        = (Inr e1, s1)"
    and e1: "ed_title e1 = ed_title ?e0" "ed_content e1 = ed_content ?e0"
    and s1: "Posts (db s1) = Posts (db ?s0)" "res s1 = res ?s0" "no_fault (faults s1)"
    by blast
  from categories_step [OF s1(3) cats, where e = e1] obtain e2 s2 where
    c: "(case body_categories rq of None \<Rightarrow> return e1
          | Some cs \<Rightarrow>
              if js_truthy cs
              then andThen (createOrGetCategories castString cs)
                     (\<lambda>categoryIds. return (e1\<lparr>ed_categories := categoryIds\<rparr>))
              else return e1) s1
        = (Inr e2, s2)"
    and e2: "ed_title e2 = ed_title e1" "ed_content e2 = ed_content e1"
    and s2: "Posts (db s2) = Posts (db s1)" "res s2 = res s1" "no_fault (faults s2)"
    by blast
  have found2: "find (\<lambda>p. post_id p = params_id rq) (Posts (db s2)) = Some p"
    using found s1(1) s2(1) by simp
  have idp: "\<forall>q. post_id (apply_edit e2 q) = post_id q"
    by (simp add: apply_edit_def)
  have after: "find (\<lambda>q. post_id q = params_id rq)
                 (map (\<lambda>q. if post_id q = params_id rq then apply_edit e2 q else q)
                    (Posts (db s2)))
               = Some (apply_edit e2 p)"
    by (rule find_map_apply [OF found2 idp])
  have res2: "res s2 = None"
    using s1(2) s2(2) by simp
  have run: "serve (updatePost castString rq) fl n d =
        (Inr (), s2\<lparr>db := (db s2)\<lparr>Posts :=
                       map (\<lambda>q. if post_id q = params_id rq then apply_edit e2 q else q)
                         (Posts (db s2))\<rparr>,
                   faults := tl (faults s2),
                   res := Some (200, JObj [(''message'', JStr ''Post updated successfully''),
                             (''updatedPost'', post_toJSON (apply_edit e2 p))])\<rparr>)"
    using found author ok t c found2 res2 s2(3)
    by (simp add: updatePost_def serve_def andThen_def try_catch_def respond_def throw_def
        Post_findById_def Post_findByIdAndUpdate_def db_call_step Let_def)
  have title: "body_title rq = None \<or> body_title rq = Some [] \<longrightarrow>
               post_title (apply_edit e2 p) = post_title p"
    using e1 e2 by (auto simp: apply_edit_def truthy_def)
  have content: "body_content rq = None \<or> body_content rq = Some [] \<longrightarrow>
                 post_content (apply_edit e2 p) = post_content p"
    using e1 e2 by (auto simp: apply_edit_def truthy_def)
  show ?thesis
    unfolding run using after title content by simp
qed

text \<open>
  C10, for tags and categories that can be iterated. With no database call rejecting,
  \<^verbatim>\<open>editCommentById\<close> by the author with a \<^verbatim>\<open>content\<close> that is missing or empty
  answers 200 with the success message and the stored comment is what it was.
  \<^verbatim>\<open>updatePost\<close> by the author, when \<^verbatim>\<open>tags\<close> and \<^verbatim>\<open>categories\<close> are each
  missing, falsy, or an array or string whose elements cast to names, answers 200 with
  the success message and the updated post, whose title is the old one when the
  request's \<^verbatim>\<open>title\<close> is missing or empty, and whose content is the old one when the
  request's \<^verbatim>\<open>content\<close> is.
\<close>

theorem falsy_fields_retained:
  assumes "no_fault fl"
  shows "(find (\<lambda>c. comment_id c = params_id rc) (Comments d) = Some c \<and>
          comment_author c = user_id rc \<and>
          (body_content rc = None \<or> body_content rc = Some []) \<longrightarrow>
            res (snd (serve (editCommentById rc) fl n d)) =
              Some (200, JObj [(''message'', JStr ''Comment updated successfully''),
                               (''comment'', comment_toJSON c)]) \<and>
            find (\<lambda>c. comment_id c = params_id rc)
              (Comments (db (snd (serve (editCommentById rc) fl n d)))) = Some c) \<and>
         (find (\<lambda>p. post_id p = params_id rp) (Posts d) = Some p \<and>
          post_author p = user_id rp \<and>
          iterable_names castString (body_tags rp) \<and>
          iterable_names castString (body_categories rp) \<longrightarrow>
            (\<exists>up. find (\<lambda>p. post_id p = params_id rp)
                     (Posts (db (snd (serve (updatePost castString rp) fl n d)))) = Some up \<and>
               res (snd (serve (updatePost castString rp) fl n d)) =
                 Some (200, JObj [(''message'', JStr ''Post updated successfully''),
                                  (''updatedPost'', post_toJSON up)]) \<and>
               (body_title rp = None \<or> body_title rp = Some [] \<longrightarrow>
                  post_title up = post_title p) \<and>
               (body_content rp = None \<or> body_content rp = Some [] \<longrightarrow>
                  post_content up = post_content p)))"
  using assms editComment_falsy [of rc d c fl n] updatePost_falsy [of rp d p fl castString n]
  by blast

text \<open>
  User 7, the author of post 1 and of comment 4, sends an empty content for the comment,
  and for the post an empty title with a new content and the tags \<^verbatim>\<open>misc\<close>, which
  exists, and \<^verbatim>\<open>fresh\<close>, which is created.
\<close>

theorem falsy_fields_retained_witness:
  "no_fault [] \<and>
   find (\<lambda>c. comment_id c = 4) (Comments blog) = Some comment4 \<and>
   comment_author comment4 = 7 \<and>
   find (\<lambda>p. post_id p = 1) (Posts blog) = Some post1 \<and>
   post_author post1 = 7 \<and>
   iterable_names no_cast (Some (JArr [JStr ''misc'', JStr ''fresh''])) \<and>
   iterable_names no_cast None \<and>
   res (snd (serve (editCommentById ((request 4 7)\<lparr>body_content := Some []\<rparr>)) [] 10 blog)) =
     Some (200, JObj [(''message'', JStr ''Comment updated successfully''),
                      (''comment'', comment_toJSON comment4)]) \<and>
   Comments (db (snd (serve (editCommentById ((request 4 7)\<lparr>body_content := Some []\<rparr>))
                        [] 10 blog))) = [comment3, comment4] \<and>
   Posts (db (snd (serve (updatePost no_cast ((request 1 7)\<lparr>body_title := Some [],
              body_content := Some ''Edited'',
              body_tags := Some (JArr [JStr ''misc'', JStr ''fresh''])\<rparr>)) [] 10 blog))) =
     [post1\<lparr>post_content := Some ''Edited'', post_tags := [21, 10]\<rparr>, post2]"
proof -
  have h: "no_fault []"
    by (simp add: no_fault_def)
  have hc: "find (\<lambda>c. comment_id c = 4) (Comments blog) = Some comment4 \<and>
            comment_author comment4 = 7"
    by (simp add: blog_defs)
  have hp: "find (\<lambda>p. post_id p = 1) (Posts blog) = Some post1 \<and> post_author post1 = 7"
    by (simp add: blog_defs)
  have ht: "iterable_names no_cast (Some (JArr [JStr ''misc'', JStr ''fresh''])) \<and>
            iterable_names no_cast None"
    by (simp add: iterable_names_def js_truthy_def iterate_def name_of_def)
  have edit: "Comments (db (snd (serve (editCommentById ((request 4 7)\<lparr>body_content := Some []\<rparr>))
                                   [] 10 blog))) = [comment3, comment4]"
    by (simp add: editCommentById_def io_defs db_call_def comment_ops blog_defs js_or_def
        truthy_def Let_def)
  have update: "Posts (db (snd (serve (updatePost no_cast ((request 1 7)\<lparr>body_title := Some [],
                  body_content := Some ''Edited'',
                  body_tags := Some (JArr [JStr ''misc'', JStr ''fresh''])\<rparr>)) [] 10 blog))) =
                [post1\<lparr>post_content := Some ''Edited'', post_tags := [21, 10]\<rparr>, post2]"
    by (simp add: updatePost_def createOrGetTags_def iterate_def js_truthy_def name_of_def
        io_defs db_call_def like_ops post_ops blog_defs truthy_def apply_edit_def Let_def)
  show ?thesis
    using falsy_fields_retained [OF h,
        where rc = "(request 4 7)\<lparr>body_content := Some []\<rparr>" and d = blog and c = comment4
          and n = 10 and p = post1 and castString = no_cast
          and rp = "(request 1 7)\<lparr>body_title := Some [], body_content := Some ''Edited'',
                      body_tags := Some (JArr [JStr ''misc'', JStr ''fresh''])\<rparr>"]
      h hc hp ht edit update
    by (simp add: request_def post1_def post2_def)
qed

text \<open>
  C10 as stated, for every request of the author with an empty title, fails. User 7
  sends an empty title and the number 5 as \<^verbatim>\<open>tags\<close> for post 1: the number is truthy
  and cannot be iterated, the loop of \<^verbatim>\<open>createOrGetTags\<close> throws a \<^verbatim>\<open>TypeError\<close>
  inside the \<^verbatim>\<open>try\<close> block, and with no database call rejecting the answer is 500
  and the post is as it was.
\<close>

theorem updatePost_tags_not_iterable_counterexample:
  "no_fault [] \<and>
   find (\<lambda>p. post_id p = 1) (Posts blog) = Some post1 \<and>
   post_author post1 = 7 \<and>
   res (snd (serve (updatePost no_cast ((request 1 7)\<lparr>body_title := Some [],
              body_tags := Some (JNum 5)\<rparr>)) [] 10 blog)) =
     Some (500, msg_error ''Failed to create post'' TypeError) \<and>
   db (snd (serve (updatePost no_cast ((request 1 7)\<lparr>body_title := Some [],
              body_tags := Some (JNum 5)\<rparr>)) [] 10 blog)) = blog"
  by (simp add: no_fault_def updatePost_def createOrGetTags_def iterate_def js_truthy_def
      io_defs db_call_def like_ops post_ops blog_defs truthy_def Let_def)

end
